theory Spec2Isabelle
  imports Complex_Main "HOL-Library.Word"
begin

section \<open>JavaScript values of the upload API\<close>

text \<open>
  The handler of \<^verbatim>\<open>src/API/upload/index.js\<close> is embedded function by function.
  A JavaScript string is its sequence of UTF-16 code units. A property that may be missing
  is an \<open>option\<close>: \<open>None\<close> is JavaScript's \<open>undefined\<close>. The fields of a request that
  are present have the types of the data model (strings, integer byte counts, a list of
  file objects), and a reply of the storage provider is an object. The calls of
  \<open>context.log\<close> write to the log of the host only and are left out.
\<close>

type_synonym jschar = "16 word"
type_synonym jsstring = "jschar list"

definition js :: "string \<Rightarrow> jsstring" where
  "js s = map of_char s"

definition toString :: "jsstring option \<Rightarrow> jsstring" where
  \<comment> \<open>what a template literal or \<open>+\<close> makes of a string-or-undefined operand\<close>
  "toString v = (case v of None \<Rightarrow> js ''undefined'' | Some s \<Rightarrow> s)"

definition truthy :: "jsstring option \<Rightarrow> bool" where
  "truthy v = (case v of None \<Rightarrow> False | Some s \<Rightarrow> s \<noteq> [])"

fun digits :: "nat \<Rightarrow> jsstring" where
  "digits n = (if n < 10 then [of_nat (48 + n)]
               else digits (n div 10) @ [of_nat (48 + n mod 10)])"

declare digits.simps [simp del]

definition numberToString :: "int \<Rightarrow> jsstring" where
  \<comment> \<open>an integral Number in a template literal\<close>
  "numberToString n = (if n < 0 then js ''-'' @ digits (nat (- n)) else digits (nat n))"

definition hexDigit :: "nat \<Rightarrow> jschar" where
  "hexDigit d = (if d < 10 then of_nat (48 + d) else of_nat (87 + d))"

definition hexByte :: "8 word \<Rightarrow> jsstring" where
  "hexByte b = [hexDigit (unat b div 16), hexDigit (unat b mod 16)]"

definition toHex :: "8 word list \<Rightarrow> jsstring" where
  \<comment> \<open>\<open>buffer.toString('hex')\<close>\<close>
  "toHex bs = concat (map hexByte bs)"

definition split_at_0 :: "jsstring \<Rightarrow> jsstring" where
  \<comment> \<open>\<open>s.split('@')[0]\<close>: the part before the first \<open>@\<close>, all of \<open>s\<close> when it has none\<close>
  "split_at_0 s = takeWhile (\<lambda>c. c \<noteq> 0x40) s"

definition is_space :: "jschar \<Rightarrow> bool" where
  \<comment> \<open>the class \<open>\s\<close> of a regular expression: white space and line terminators\<close>
  "is_space c \<longleftrightarrow>
     c \<in> {0x09, 0x0A, 0x0B, 0x0C, 0x0D, 0x20, 0xA0, 0x1680, 0x2028, 0x2029, 0x202F,
          0x205F, 0x3000, 0xFEFF} \<or> (0x2000 \<le> c \<and> c \<le> 0x200A)"

function replace_spaces :: "jsstring \<Rightarrow> jsstring" where
  \<comment> \<open>\<open>s.replace(/\s+/g, '_')\<close>: every maximal run of white space becomes one underscore\<close>
  "replace_spaces [] = []"
| "replace_spaces (c # cs) =
     (if is_space c then 0x5F # replace_spaces (dropWhile is_space cs)
      else c # replace_spaces cs)"
  by pat_completeness auto
termination
  by (relation "measure length") (auto simp: length_dropWhile_le less_Suc_eq_le)

definition replace_newlines :: "jsstring \<Rightarrow> jsstring" where
  \<comment> \<open>\<open>s.replace(/\n/g, '<br>')\<close>\<close>
  "replace_newlines s = concat (map (\<lambda>c. if c = 0x0A then js ''<br>'' else [c]) s)"

section \<open>formatFileSize\<close>

text \<open>
  Numbers are exact here: \<open>Math.log\<close>, \<open>Math.pow\<close>, the division and \<open>Math.round\<close> are
  read over the reals, which is what they compute on the byte counts of a file (integers
  far below \<open>2 ^ 53\<close>) up to the rounding of the two logarithms.
  \<open>floor_log1024\<close> is \<open>Math.floor(Math.log(bytes) / Math.log(1024))\<close> and
  \<open>round_scaled\<close> is \<open>Math.round(bytes / Math.pow(1024, i) * 100)\<close>, both computed on
  integers; lemmas \<open>floor_log1024_log\<close> and \<open>round_scaled_floor\<close> relate them to the
  expressions of the source. A negative count makes \<open>Math.log\<close> return \<open>NaN\<close>.
\<close>

definition sizes :: "jsstring list" where
  "sizes = [js ''Bytes'', js ''KB'', js ''MB'', js ''GB'']"

fun floor_log1024 :: "nat \<Rightarrow> nat" where
  "floor_log1024 n = (if n < 1024 then 0 else Suc (floor_log1024 (n div 1024)))"

declare floor_log1024.simps [simp del]

definition round_scaled :: "nat \<Rightarrow> nat \<Rightarrow> nat" where
  "round_scaled bytes i = (200 * bytes + 1024 ^ i) div (2 * 1024 ^ i)"

definition hundredthsToString :: "nat \<Rightarrow> jsstring" where
  \<comment> \<open>the Number \<open>h / 100\<close> as JavaScript prints it: no trailing zeros, no bare point\<close>
  "hundredthsToString h =
     digits (h div 100) @
     (if h mod 100 = 0 then []
      else if h mod 10 = 0 then js ''.'' @ digits (h mod 100 div 10)
      else js ''.'' @ digits (h mod 100 div 10) @ digits (h mod 10))"

definition formatFileSize :: "int option \<Rightarrow> jsstring" where
  "formatFileSize bytes =
     (case bytes of
        None \<Rightarrow> js ''0 Bytes''
      | Some b \<Rightarrow>
          if b = 0 then js ''0 Bytes''
          else if b < 0 then js ''NaN undefined''
          else
            let i = floor_log1024 (nat b)
            in hundredthsToString (round_scaled (nat b) i) @ js '' '' @
               (if i < length sizes then sizes ! i else js ''undefined''))"

section \<open>The static text of the two email templates\<close>

text \<open>
  The template literals of \<open>sendEditorEmail\<close> and \<open>sendReviewEmail\<close>, cut at their
  interpolations; the characters outside ASCII are given as code units.
\<close>

definition editor_html_0 :: jsstring where
  \<open>editor_html_0 =
     js ''\<newline>'' @
     js ''<!DOCTYPE html>\<newline>'' @
     js ''<html>\<newline>'' @
     js ''<head>\<newline>'' @
     js ''    <style>\<newline>'' @
     js ''        body { font-family: Arial, sans-serif; color: #333; }\<newline>'' @
     js ''        .container { max-width: 600px; margin: 0 auto; padding: 20px; }\<newline>'' @
     js ''        .header { background: #007bff; color: white; padding: 20px; text-align: center; }\<newline>'' @
     js ''        .content { padding: 20px; background: #f5f5f5; }\<newline>'' @
     js ''        .section { background: white; padding: 15px; margin: 10px 0; border-radius: 5px; }\<newline>'' @
     js ''        .button { display: inline-block; padding: 10px 20px; background: #28a745; color: white; text-decoration: none; border-radius: 5px; margin-top: 20px; }\<newline>'' @
     js ''        ul { list-style: none; padding: 0; }\<newline>'' @
     js ''        li { padding: 5px 0; }\<newline>'' @
     js ''    </style>\<newline>'' @
     js ''</head>\<newline>'' @
     js ''<body>\<newline>'' @
     js ''    <div class="container">\<newline>'' @
     js ''        <div class="header">\<newline>'' @
     js ''            <h2>New Footage Assignment</h2>\<newline>'' @
     js ''        </div>\<newline>'' @
     js ''        <div class="content">\<newline>'' @
     js ''            <div class="section">\<newline>'' @
     js ''                <h3>Hi ''\<close>

definition editor_html_1 :: jsstring where
  \<open>editor_html_1 =
     js ''.</p>\<newline>'' @
     js ''                \<newline>'' @
     js ''                <h4>Project Details:</h4>\<newline>'' @
     js ''                <ul>\<newline>'' @
     js ''                    <li><strong>Client:</strong> ''\<close>

definition editor_html_2 :: jsstring where
  \<open>editor_html_2 =
     js ''\<newline>'' @
     js ''                </ul>\<newline>'' @
     js ''                \<newline>'' @
     js ''                <h4>Instructions:</h4>\<newline>'' @
     js ''                <div style="background: #f0f0f0; padding: 15px; border-radius: 5px;">\<newline>'' @
     js ''                    ''\<close>

definition editor_html_3 :: jsstring where
  \<open>editor_html_3 =
     js ''\<newline>'' @
     js ''                </div>\<newline>'' @
     js ''                \<newline>'' @
     js ''                <h4>Download Files:</h4>\<newline>'' @
     js ''                <ul>\<newline>'' @
     js ''                    ''\<close>

definition editor_html_4 :: jsstring where
  \<open>editor_html_4 =
     js ''\<newline>'' @
     js ''                </ul>\<newline>'' @
     js ''                \<newline>'' @
     js ''                <a href="''\<close>

definition editor_html_5 :: jsstring where
  \<open>editor_html_5 =
     js ''" class="button">Upload Edited Version</a>\<newline>'' @
     js ''                \<newline>'' @
     js ''                <p style="margin-top: 20px; font-size: 12px; color: #666;">\<newline>'' @
     js ''                    Files will be available for download for 7 days. Please download them as soon as possible.\<newline>'' @
     js ''                </p>\<newline>'' @
     js ''            </div>\<newline>'' @
     js ''        </div>\<newline>'' @
     js ''    </div>\<newline>'' @
     js ''</body>\<newline>'' @
     js ''</html>\<newline>'' @
     js ''    ''\<close>


definition review_html_0 :: jsstring where
  \<open>review_html_0 =
     js ''\<newline>'' @
     js ''<!DOCTYPE html>\<newline>'' @
     js ''<html>\<newline>'' @
     js ''<head>\<newline>'' @
     js ''    <style>\<newline>'' @
     js ''        body { font-family: Arial, sans-serif; color: #333; }\<newline>'' @
     js ''        .container { max-width: 600px; margin: 0 auto; padding: 20px; }\<newline>'' @
     js ''        .header { background: #6c757d; color: white; padding: 20px; text-align: center; }\<newline>'' @
     js ''        .content { padding: 20px; background: #f5f5f5; }\<newline>'' @
     js ''        .section { background: white; padding: 15px; margin: 10px 0; border-radius: 5px; }\<newline>'' @
     js ''        .buttons { text-align: center; margin-top: 30px; }\<newline>'' @
     js ''        .button { display: inline-block; padding: 12px 30px; margin: 0 10px; text-decoration: none; border-radius: 5px; color: white; font-weight: bold; }\<newline>'' @
     js ''        .approve { background: #28a745; }\<newline>'' @
     js ''        .revise { background: #dc3545; }\<newline>'' @
     js ''        ul { list-style: none; padding: 0; }\<newline>'' @
     js ''        li { padding: 5px 0; }\<newline>'' @
     js ''    </style>\<newline>'' @
     js ''</head>\<newline>'' @
     js ''<body>\<newline>'' @
     js ''    <div class="container">\<newline>'' @
     js ''        <div class="header">\<newline>'' @
     js ''            <h2>Video Review Required</h2>\<newline>'' @
     js ''        </div>\<newline>'' @
     js ''        <div class="content">\<newline>'' @
     js ''            <div class="section">\<newline>'' @
     js ''                <h3>New Video for Review</h3>\<newline>'' @
     js ''                \<newline>'' @
     js ''                <h4>Project Details:</h4>\<newline>'' @
     js ''                <ul>\<newline>'' @
     js ''                    <li><strong>Project:</strong> ''\<close>

definition review_html_1 :: jsstring where
  \<open>review_html_1 =
     js ''</li>\<newline>'' @
     js ''                </ul>\<newline>'' @
     js ''                \<newline>'' @
     js ''                ''\<close>

definition review_html_2 :: jsstring where
  \<open>review_html_2 =
     js ''\<newline>'' @
     js ''                <h4>Editor Notes:</h4>\<newline>'' @
     js ''                <div style="background: #f0f0f0; padding: 15px; border-radius: 5px;">\<newline>'' @
     js ''                    ''\<close>

definition review_html_3 :: jsstring where
  \<open>review_html_3 =
     js ''\<newline>'' @
     js ''                </div>\<newline>'' @
     js ''                ''\<close>

definition review_html_4 :: jsstring where
  \<open>review_html_4 =
     js ''\<newline>'' @
     js ''                \<newline>'' @
     js ''                <h4>Review Files:</h4>\<newline>'' @
     js ''                <ul>\<newline>'' @
     js ''                    ''\<close>

definition review_html_5 :: jsstring where
  \<open>review_html_5 =
     js ''\<newline>'' @
     js ''                </ul>\<newline>'' @
     js ''                \<newline>'' @
     js ''                <div class="buttons">\<newline>'' @
     js ''                    <a href="''\<close>

definition review_html_6 :: jsstring where
  \<open>review_html_6 =
     js ''" class="button approve">\<newline>'' @
     js ''                        '' @
     [0x201A, 0x00FA, 0x00D6] @
     js '' Approve\<newline>'' @
     js ''                    </a>\<newline>'' @
     js ''                    <a href="''\<close>

definition review_html_7 :: jsstring where
  \<open>review_html_7 =
     js ''" class="button revise">\<newline>'' @
     js ''                        '' @
     [0x201A, 0x00FA, 0x00E8, 0x00D4, 0x220F, 0x00E8] @
     js '' Request Revisions\<newline>'' @
     js ''                    </a>\<newline>'' @
     js ''                </div>\<newline>'' @
     js ''                \<newline>'' @
     js ''                <p style="margin-top: 20px; font-size: 12px; color: #666; text-align: center;">\<newline>'' @
     js ''                    Click one of the buttons above to approve or request revisions.\<newline>'' @
     js ''                </p>\<newline>'' @
     js ''            </div>\<newline>'' @
     js ''        </div>\<newline>'' @
     js ''    </div>\<newline>'' @
     js ''</body>\<newline>'' @
     js ''</html>\<newline>'' @
     js ''    ''\<close>

section \<open>Requests, configuration, the world outside\<close>

record metadata =
  uploadType :: "jsstring option"
  editor :: "jsstring option"
  clientName :: "jsstring option"
  shootDate :: "jsstring option"
  footageType :: "jsstring option"
  musicType :: "jsstring option"
  instructions :: "jsstring option"
  projectName :: "jsstring option"
  editorName :: "jsstring option"
  description :: "jsstring option"

record file_ref =
  file_fileName :: "jsstring option"
  file_filePath :: "jsstring option"
  file_size :: "int option"

record request_body =
  body_fileName :: "jsstring option"
  body_fileSize :: "int option"
  body_metadata :: "metadata option"
  body_files :: "file_ref list option"

record request =
  body :: "request_body option"

record bindingData =
  action :: "jsstring option"

record function_context =
  bindingData :: bindingData

text \<open>
  The errors the code can throw: the \<open>TypeError\<close> of a property read or a method call on
  \<open>undefined\<close>, the \<open>URIError\<close> of \<open>encodeURIComponent\<close>, and the rejection of an
  upstream call with its message.
\<close>

datatype error = TypeError | URIError | UpstreamError jsstring

record storage_authorization =
  apiUrl :: "jsstring option"
  authorizationToken :: "jsstring option"

record upload_url_data =
  data_uploadUrl :: "jsstring option"
  data_authorizationToken :: "jsstring option"

record prepared_upload =
  uploadUrl :: "jsstring option"
  authToken :: "jsstring option"
  fileId :: jsstring
  filePath :: jsstring

datatype error_text = Text jsstring | MessageOf error

datatype response_body =
    ErrorBody error_text
  | PreparedBody prepared_upload
  | SuccessBody bool jsstring

record response =
  status :: nat
  res_body :: response_body

record msg =
  msg_to :: jsstring
  msg_from :: jsstring
  msg_subject :: jsstring
  msg_html :: jsstring

record download_link =
  link_name :: "jsstring option"
  link_url :: jsstring
  link_size :: jsstring

record review_entry =
  entry_metadata :: metadata
  entry_files :: "file_ref list"
  entry_timestamp :: int

text \<open>
  An outbound call: \<open>axios.get\<close> of the authorize endpoint (URL, Authorization header),
  \<open>axios.post\<close> of the upload-URL endpoint (URL, bucket id, Authorization header) and
  \<open>sgMail.send\<close>.
\<close>

datatype call =
    Authorize jsstring jsstring
  | GetUploadUrl jsstring "jsstring option" "jsstring option"
  | Send msg

record config =
  B2_KEY_ID :: "jsstring option"
  B2_APP_KEY :: "jsstring option"
  B2_BUCKET_ID :: "jsstring option"
  B2_BUCKET_NAME :: jsstring
  B2_ENDPOINT :: jsstring
  BOSS_EMAIL :: jsstring
  FROM_EMAIL :: jsstring
  APP_URL :: jsstring

definition or_default :: "jsstring option \<Rightarrow> jsstring \<Rightarrow> jsstring" where
  \<comment> \<open>\<open>v || d\<close>\<close>
  "or_default v d = (case v of None \<Rightarrow> d | Some s \<Rightarrow> if s = [] then d else s)"

definition config_of :: "(string \<Rightarrow> jsstring option) \<Rightarrow> config" where
  \<comment> \<open>the constants read from \<open>process.env\<close> when the module is loaded\<close>
  "config_of env =
     \<lparr>B2_KEY_ID = env ''B2_KEY_ID'',
      B2_APP_KEY = env ''B2_APP_KEY'',
      B2_BUCKET_ID = env ''B2_BUCKET_ID'',
      B2_BUCKET_NAME = or_default (env ''B2_BUCKET_NAME'') (js ''nuculture-media''),
      B2_ENDPOINT = or_default (env ''B2_ENDPOINT'') (js ''https://api.backblazeb2.com''),
      BOSS_EMAIL = or_default (env ''BOSS_EMAIL'') (js ''boss@nuculture.com''),
      FROM_EMAIL = or_default (env ''FROM_EMAIL'') (js ''workflow@nuculture.com''),
      APP_URL = or_default (env ''APP_URL'') (js ''https://your-app.azurestaticapps.net'')\<rparr>"

text \<open>
  What the code does not decide is a parameter: the readings of the clock in the order
  they are taken, the bytes of \<open>crypto.randomBytes\<close>, the library functions whose result
  no statement below depends on, and the outcome of each outbound call, given by the
  number of calls made before it.
\<close>

record platform =
  now :: "nat \<Rightarrow> int"
  random :: "nat \<Rightarrow> 8 word"
  base64 :: "jsstring \<Rightarrow> jsstring"
  encodeURIComponent :: "jsstring \<Rightarrow> jsstring option"
  toLocaleString :: "int \<Rightarrow> jsstring"
  authorize_reply :: "nat \<Rightarrow> error + storage_authorization"
  upload_url_reply :: "nat \<Rightarrow> error + upload_url_data"
  send_reply :: "nat \<Rightarrow> error option"

text \<open>
  The state of the process: the module variables \<open>b2Auth\<close> (\<open>None\<close> is \<open>null\<close>) and
  \<open>b2AuthExpiry\<close>, \<open>global.reviewData\<close> (\<open>None\<close> until the first review is stored), how
  much of the clock and of the random bytes has been used, and the outbound calls made so
  far, oldest first, each with whether it succeeded.
\<close>

record state =
  b2Auth :: "storage_authorization option"
  b2AuthExpiry :: int
  reviewData :: "(jsstring \<Rightarrow> review_entry option) option"
  clock_reads :: nat
  random_reads :: nat
  calls :: "(call \<times> bool) list"

type_synonym 'a io = "state \<Rightarrow> (error + 'a) \<times> state"

definition return :: "'a \<Rightarrow> 'a io" where
  "return x = (\<lambda>s. (Inr x, s))"

definition throw :: "error \<Rightarrow> 'a io" where
  "throw e = (\<lambda>s. (Inl e, s))"

definition and_then :: "'a io \<Rightarrow> ('a \<Rightarrow> 'b io) \<Rightarrow> 'b io" where
  "and_then m f = (\<lambda>s. case m s of (Inl e, s') \<Rightarrow> (Inl e, s') | (Inr x, s') \<Rightarrow> f x s')"

definition read_state :: "(state \<Rightarrow> 'a) \<Rightarrow> 'a io" where
  "read_state f = (\<lambda>s. (Inr (f s), s))"

definition modify :: "(state \<Rightarrow> state) \<Rightarrow> unit io" where
  "modify f = (\<lambda>s. (Inr (), f s))"

definition Date_now :: "platform \<Rightarrow> int io" where
  "Date_now P = (\<lambda>s. (Inr (now P (clock_reads s)), s\<lparr>clock_reads := Suc (clock_reads s)\<rparr>))"

definition randomBytes :: "platform \<Rightarrow> nat \<Rightarrow> 8 word list io" where
  "randomBytes P n =
     (\<lambda>s. (Inr (map (random P) [random_reads s ..< random_reads s + n]),
           s\<lparr>random_reads := random_reads s + n\<rparr>))"

definition outbound :: "call \<Rightarrow> (nat \<Rightarrow> error + 'a) \<Rightarrow> 'a io" where
  "outbound c reply =
     (\<lambda>s. case reply (length (calls s)) of
             Inl e \<Rightarrow> (Inl e, s\<lparr>calls := calls s @ [(c, False)]\<rparr>)
           | Inr x \<Rightarrow> (Inr x, s\<lparr>calls := calls s @ [(c, True)]\<rparr>))"

definition sgMail_send :: "platform \<Rightarrow> msg \<Rightarrow> unit io" where
  "sgMail_send P m =
     outbound (Send m) (\<lambda>k. case send_reply P k of None \<Rightarrow> Inr () | Some e \<Rightarrow> Inl e)"

section \<open>The handlers\<close>

definition authorizeB2 :: "platform \<Rightarrow> config \<Rightarrow> storage_authorization io" where
  "authorizeB2 P cfg =
     and_then (read_state b2Auth) (\<lambda>cached.
     and_then (case cached of
                 None \<Rightarrow> return None
               | Some a \<Rightarrow>
                   and_then (Date_now P) (\<lambda>t.
                   and_then (read_state b2AuthExpiry) (\<lambda>expiry.
                   return (if t < expiry then Some a else None)))) (\<lambda>hit.
     case hit of
       Some a \<Rightarrow> return a
     | None \<Rightarrow>
         let authString = base64 P (toString (B2_KEY_ID cfg) @ js '':'' @ toString (B2_APP_KEY cfg))
         in and_then (outbound (Authorize (B2_ENDPOINT cfg @ js ''/b2api/v2/b2_authorize_account'')
                                          (js ''Basic '' @ authString))
                               (authorize_reply P)) (\<lambda>data.
            and_then (modify (\<lambda>s. s\<lparr>b2Auth := Some data\<rparr>)) (\<lambda>_.
            and_then (Date_now P) (\<lambda>t.
            and_then (modify (\<lambda>s. s\<lparr>b2AuthExpiry := t + 23 * 60 * 60 * 1000\<rparr>)) (\<lambda>_.
            return data))))))"

definition planPath :: "int \<Rightarrow> jsstring option \<Rightarrow> metadata option \<Rightarrow> error + jsstring" where
  \<comment> \<open>lines 64 to 70 of \<open>handlePrepareUpload\<close>: the \<open>filePath\<close>\<close>
  "planPath timestamp fileName md =
     (case md of
        None \<Rightarrow> Inl TypeError
      | Some m \<Rightarrow>
          if uploadType m = Some (js ''raw'') then
            (case editor m of
               None \<Rightarrow> Inl TypeError
             | Some e \<Rightarrow>
                 let editorEmail = split_at_0 e
                 in (case clientName m of
                       None \<Rightarrow> Inl TypeError
                     | Some c \<Rightarrow>
                         Inr (js ''raw_uploads/'' @ editorEmail @ js ''/'' @
                              numberToString timestamp @ js ''_'' @ replace_spaces c @
                              js ''/'' @ toString fileName)))
          else
            (case projectName m of
               None \<Rightarrow> Inl TypeError
             | Some p \<Rightarrow>
                 Inr (js ''edited_uploads/review/'' @ numberToString timestamp @ js ''_'' @
                      replace_spaces p @ js ''/'' @ toString fileName)))"

definition handlePrepareUpload :: "platform \<Rightarrow> config \<Rightarrow> request \<Rightarrow> response io" where
  "handlePrepareUpload P cfg req =
     (case body req of
        None \<Rightarrow> throw TypeError
      | Some b \<Rightarrow>
          and_then (authorizeB2 P cfg) (\<lambda>auth.
          and_then (Date_now P) (\<lambda>timestamp.
          and_then (randomBytes P 4) (\<lambda>bytes.
          let fileId' = numberToString timestamp @ js ''_'' @ toHex bytes
          in case planPath timestamp (body_fileName b) (body_metadata b) of
               Inl e \<Rightarrow> throw e
             | Inr filePath' \<Rightarrow>
                 and_then (outbound (GetUploadUrl (toString (apiUrl auth) @
                                                    js ''/b2api/v2/b2_get_upload_url'')
                                                   (B2_BUCKET_ID cfg) (authorizationToken auth))
                                    (upload_url_reply P)) (\<lambda>uploadData.
                 return \<lparr>status = 200,
                         res_body = PreparedBody
                           \<lparr>uploadUrl = data_uploadUrl uploadData,
                            authToken = data_authorizationToken uploadData,
                            fileId = fileId',
                            filePath = filePath'\<rparr>\<rparr>)))))"

definition downloadLinks :: "config \<Rightarrow> file_ref list \<Rightarrow> download_link list" where
  "downloadLinks cfg files =
     map (\<lambda>file.
            \<lparr>link_name = file_fileName file,
             link_url = js ''https://f003.backblazeb2.com/file/'' @ B2_BUCKET_NAME cfg @
                        js ''/'' @ toString (file_filePath file),
             link_size = formatFileSize (file_size file)\<rparr>) files"

definition editorEmailHtml ::
  "config \<Rightarrow> jsstring \<Rightarrow> metadata \<Rightarrow> download_link list \<Rightarrow> error + jsstring" where
  \<open>editorEmailHtml cfg editorName' m links =
     (case instructions m of
        None \<Rightarrow> Inl TypeError
      | Some ins \<Rightarrow>
          Inr (concat
            [editor_html_0,
             editorName',
             js '',</h3>\<newline>'' @ js ''                <p>You have new footage to edit from '',
             toString (clientName m),
             editor_html_1,
             toString (clientName m),
             js ''</li>\<newline>'' @ js ''                    <li><strong>Shoot Date:</strong> '',
             toString (shootDate m),
             js ''</li>\<newline>'' @ js ''                    <li><strong>Footage Type:</strong> '',
             toString (footageType m),
             js ''</li>\<newline>'' @ js ''                    '',
             (if truthy (musicType m)
              then js ''<li><strong>Music Type:</strong> '' @ toString (musicType m) @ js ''</li>''
              else []),
             editor_html_2,
             replace_newlines ins,
             editor_html_3,
             concat (map (\<lambda>link.
               js ''<li>'' @ [0xF8FF, 0x00FC, 0x00EC, 0x00E9] @ js '' <a href="'' @
               link_url link @ js ''">'' @ toString (link_name link) @ js ''</a> ('' @
               link_size link @ js '')</li>'') links),
             editor_html_4,
             APP_URL cfg,
             editor_html_5]))\<close>

definition sendEditorEmail ::
  "platform \<Rightarrow> config \<Rightarrow> metadata option \<Rightarrow> file_ref list option \<Rightarrow> unit io" where
  "sendEditorEmail P cfg md files =
     (case md of
        None \<Rightarrow> throw TypeError
      | Some m \<Rightarrow>
          (case editor m of
             None \<Rightarrow> throw TypeError
           | Some editorEmail \<Rightarrow>
               let editorName' = split_at_0 editorEmail
               in (case files of
                     None \<Rightarrow> throw TypeError
                   | Some fs \<Rightarrow>
                       (case editorEmailHtml cfg editorName' m (downloadLinks cfg fs) of
                          Inl e \<Rightarrow> throw e
                        | Inr emailHtml \<Rightarrow>
                            sgMail_send P
                              \<lparr>msg_to = editorEmail,
                               msg_from = FROM_EMAIL cfg,
                               msg_subject = js ''New Footage: '' @ toString (clientName m) @
                                             js '' - '' @ toString (footageType m),
                               msg_html = emailHtml\<rparr>))))"

definition reviewEmailHtml ::
  "config \<Rightarrow> metadata \<Rightarrow> jsstring \<Rightarrow> download_link list \<Rightarrow> jsstring \<Rightarrow> jsstring \<Rightarrow> jsstring"
  where
  \<open>reviewEmailHtml cfg m submitted links reviewId project =
     concat
       [review_html_0,
        toString (projectName m),
        js ''</li>\<newline>'' @ js ''                    <li><strong>Client:</strong> '',
        toString (clientName m),
        js ''</li>\<newline>'' @ js ''                    <li><strong>Editor:</strong> '',
        toString (editorName m),
        js ''</li>\<newline>'' @ js ''                    <li><strong>Submitted:</strong> '',
        submitted,
        review_html_1,
        (if truthy (description m)
         then review_html_2 @ replace_newlines (toString (description m)) @ review_html_3
         else []),
        review_html_4,
        concat (map (\<lambda>link.
          js ''<li>'' @ [0xF8FF, 0x00FC, 0x00E9, 0x00A8] @ js '' <a href="'' @
          link_url link @ js ''">'' @ toString (link_name link) @ js ''</a> ('' @
          link_size link @ js '')</li>'') links),
        review_html_5,
        APP_URL cfg,
        js ''/api/review?action=approve&id='',
        reviewId,
        js ''&project='',
        project,
        review_html_6,
        APP_URL cfg,
        js ''/api/review?action=revise&id='',
        reviewId,
        js ''&project='',
        project,
        review_html_7]\<close>

definition sendReviewEmail ::
  "platform \<Rightarrow> config \<Rightarrow> metadata option \<Rightarrow> file_ref list option \<Rightarrow> unit io" where
  "sendReviewEmail P cfg md files =
     (case files of
        None \<Rightarrow> throw TypeError
      | Some fs \<Rightarrow>
          and_then (randomBytes P 16) (\<lambda>bytes.
          let reviewId = toHex bytes
          in case md of
               None \<Rightarrow> throw TypeError
             | Some m \<Rightarrow>
                 and_then (Date_now P) (\<lambda>date.
                 case encodeURIComponent P (toString (projectName m)) of
                   None \<Rightarrow> throw URIError
                 | Some project \<Rightarrow>
                     and_then (sgMail_send P
                        \<lparr>msg_to = BOSS_EMAIL cfg,
                         msg_from = FROM_EMAIL cfg,
                         msg_subject = js ''Review Required: '' @ toString (projectName m),
                         msg_html = reviewEmailHtml cfg m (toLocaleString P date)
                                      (downloadLinks cfg fs) reviewId project\<rparr>) (\<lambda>_.
                     and_then (modify (\<lambda>s. s\<lparr>reviewData :=
                                  Some (case reviewData s of None \<Rightarrow> Map.empty | Some d \<Rightarrow> d)\<rparr>)) (\<lambda>_.
                     and_then (Date_now P) (\<lambda>t.
                     modify (\<lambda>s. s\<lparr>reviewData :=
                       map_option (\<lambda>d. d(reviewId \<mapsto>
                         \<lparr>entry_metadata = m, entry_files = fs, entry_timestamp = t\<rparr>))
                         (reviewData s)\<rparr>)))))))"

definition handleUploadComplete :: "platform \<Rightarrow> config \<Rightarrow> request \<Rightarrow> response io" where
  "handleUploadComplete P cfg req =
     (case body req of
        None \<Rightarrow> throw TypeError
      | Some b \<Rightarrow>
          (case body_metadata b of
             None \<Rightarrow> throw TypeError
           | Some m \<Rightarrow>
               and_then (if uploadType m = Some (js ''raw'')
                         then sendEditorEmail P cfg (body_metadata b) (body_files b)
                         else sendReviewEmail P cfg (body_metadata b) (body_files b)) (\<lambda>_.
               return \<lparr>status = 200,
                       res_body = SuccessBody True (js ''Notifications sent'')\<rparr>)))"

definition module_exports ::
  "platform \<Rightarrow> config \<Rightarrow> function_context \<Rightarrow> request \<Rightarrow> state \<Rightarrow> response \<times> state" where
  \<comment> \<open>the exported function; the response is what it leaves in \<open>context.res\<close>\<close>
  "module_exports P cfg ctx req s =
     (let action' = or_default (action (bindingData ctx)) (js '''')
      in case (if action' = js ''prepare'' then handlePrepareUpload P cfg req
               else if action' = js ''complete'' then handleUploadComplete P cfg req
               else return \<lparr>status = 400,
                            res_body = ErrorBody (Text (js ''Invalid action''))\<rparr>) s of
           (Inr res, s') \<Rightarrow> (res, s')
         | (Inl e, s') \<Rightarrow> (\<lparr>status = 500, res_body = ErrorBody (MessageOf e)\<rparr>, s'))"

section \<open>A sample world and sample requests\<close>

definition initial_state :: state where
  \<comment> \<open>the process just after the module is loaded\<close>
  "initial_state =
     \<lparr>b2Auth = None, b2AuthExpiry = 0, reviewData = None,
      clock_reads = 0, random_reads = 0, calls = []\<rparr>"

definition sample_authorization :: storage_authorization where
  "sample_authorization =
     \<lparr>apiUrl = Some (js ''https://api001.backblazeb2.com''),
      authorizationToken = Some (js ''token'')\<rparr>"

definition sample_platform :: platform where
  \<comment> \<open>a clock that advances by a millisecond per reading and providers that accept every
      call; the three library functions are stand-ins\<close>
  "sample_platform =
     \<lparr>now = (\<lambda>k. 1700000000000 + int k),
      random = (\<lambda>k. of_nat (17 * k + 3)),
      base64 = (\<lambda>s. s),
      encodeURIComponent = Some,
      toLocaleString = numberToString,
      authorize_reply = (\<lambda>k. Inr sample_authorization),
      upload_url_reply = (\<lambda>k. Inr \<lparr>data_uploadUrl = Some (js ''https://pod.backblazeb2.com/u''),
                                    data_authorizationToken = Some (js ''uploadtoken'')\<rparr>),
      send_reply = (\<lambda>k. None)\<rparr>"

definition sample_config :: config where
  "sample_config =
     config_of [''B2_KEY_ID'' \<mapsto> js ''key'', ''B2_APP_KEY'' \<mapsto> js ''secret'',
                ''B2_BUCKET_ID'' \<mapsto> js ''bucket'']"

definition raw_metadata :: metadata where
  "raw_metadata =
     \<lparr>uploadType = Some (js ''raw''), editor = Some (js ''jane@x.com''),
      clientName = Some (js ''Acme Co''), shootDate = Some (js ''2024-05-01''),
      footageType = Some (js ''Wedding''), musicType = None,
      instructions = Some (js ''Two minutes''), projectName = None, editorName = None,
      description = None\<rparr>"

definition edited_metadata :: metadata where
  "edited_metadata =
     \<lparr>uploadType = Some (js ''edited''), editor = None,
      clientName = Some (js ''Acme Co''), shootDate = None, footageType = None,
      musicType = None, instructions = None, projectName = Some (js ''Acme Promo''),
      editorName = Some (js ''Jane''), description = None\<rparr>"

definition sample_files :: "file_ref list" where
  "sample_files =
     [\<lparr>file_fileName = Some (js ''clip.mp4''),
       file_filePath = Some (js ''raw_uploads/jane/1700000000001_Acme_Co/clip.mp4''),
       file_size = Some 1536\<rparr>]"

definition prepare_body :: "metadata \<Rightarrow> request_body" where
  "prepare_body md =
     \<lparr>body_fileName = Some (js ''clip.mp4''), body_fileSize = Some 1536,
      body_metadata = Some md, body_files = None\<rparr>"

definition prepare_request :: "metadata \<Rightarrow> request" where
  "prepare_request md = \<lparr>body = Some (prepare_body md)\<rparr>"

definition complete_body :: "metadata \<Rightarrow> request_body" where
  "complete_body md =
     \<lparr>body_fileName = None, body_fileSize = None,
      body_metadata = Some md, body_files = Some sample_files\<rparr>"

definition complete_request :: "metadata \<Rightarrow> request" where
  "complete_request md = \<lparr>body = Some (complete_body md)\<rparr>"

definition call_with :: "jsstring option \<Rightarrow> function_context" where
  "call_with a = \<lparr>bindingData = \<lparr>action = a\<rparr>\<rparr>"

definition authorized_state :: state where
  \<comment> \<open>the process after one authorization in the sample world\<close>
  "authorized_state =
     \<lparr>b2Auth = Some sample_authorization, b2AuthExpiry = 1700082800000, reviewData = None,
      clock_reads = 1, random_reads = 0,
      calls = [(Authorize (js ''https://api.backblazeb2.com/b2api/v2/b2_authorize_account'')
                          (js ''Basic key:secret''), True)]\<rparr>"

definition bare_raw_metadata :: metadata where
  \<comment> \<open>the sample raw upload without shoot date, footage type and instructions\<close>
  "bare_raw_metadata =
     raw_metadata\<lparr>shootDate := None, footageType := None, instructions := None\<rparr>"

definition rejecting_platform :: platform where
  \<comment> \<open>the sample world with an email provider that rejects every message\<close>
  "rejecting_platform =
     sample_platform\<lparr>send_reply := (\<lambda>k. Some (UpstreamError (js ''Forbidden'')))\<rparr>"

definition repeating_platform :: platform where
  \<comment> \<open>the sample world with a source of random bytes that repeats itself\<close>
  "repeating_platform = sample_platform\<lparr>random := (\<lambda>k. 0)\<rparr>"

section \<open>The validation the specification asks of prepare\<close>

definition required_fields_absent :: "metadata \<Rightarrow> bool" where
  \<comment> \<open>in the specification's words (section 3): a required field of the declared variant
      is absent; a raw upload requires \<open>editor\<close>, \<open>clientName\<close>, \<open>shootDate\<close>,
      \<open>footageType\<close> and \<open>instructions\<close>, an edited one \<open>projectName\<close>, \<open>clientName\<close> and
      \<open>editorName\<close>\<close>
  "required_fields_absent m \<longleftrightarrow>
     (if uploadType m = Some (js ''raw'')
      then editor m = None \<or> clientName m = None \<or> shootDate m = None \<or>
           footageType m = None \<or> instructions m = None
      else projectName m = None \<or> clientName m = None \<or> editorName m = None)"

definition path_fields_absent :: "metadata \<Rightarrow> bool" where
  \<comment> \<open>a field that lines 65 to 70 of \<open>handlePrepareUpload\<close> call a method of is absent;
      prepare reads no other field of the metadata\<close>
  "path_fields_absent m \<longleftrightarrow>
     (if uploadType m = Some (js ''raw'')
      then editor m = None \<or> clientName m = None
      else projectName m = None)"

section \<open>Properties of formatFileSize\<close>

lemma floor_log1024_bounds:
  "0 < n \<Longrightarrow> 1024 ^ floor_log1024 n \<le> n \<and> n < 1024 ^ Suc (floor_log1024 n)"
proof (induction n rule: floor_log1024.induct)
  case (1 n)
  show ?case
  proof (cases "n < 1024")
    case True
    with "1.prems" show ?thesis
      by (simp add: floor_log1024.simps [of n])
  next
    case False
    then have pos: "0 < n div 1024" by simp
    from "1.IH" [OF False pos]
    have lo: "1024 ^ floor_log1024 (n div 1024) \<le> n div 1024"
      and hi: "n div 1024 < 1024 ^ Suc (floor_log1024 (n div 1024))" by simp_all
    have eq: "floor_log1024 n = Suc (floor_log1024 (n div 1024))"
      using False by (simp add: floor_log1024.simps [of n])
    have "1024 * 1024 ^ floor_log1024 (n div 1024) \<le> 1024 * (n div 1024)"
      using lo by simp
    also have "\<dots> \<le> n" by simp
    finally have A: "1024 ^ floor_log1024 n \<le> n" by (simp add: eq)
    have "Suc (n div 1024) \<le> 1024 ^ Suc (floor_log1024 (n div 1024))"
      using hi by simp
    then have "1024 * Suc (n div 1024) \<le> 1024 * 1024 ^ Suc (floor_log1024 (n div 1024))"
      by (rule mult_le_mono2)
    moreover have "n < 1024 * Suc (n div 1024)"
      using dividend_less_times_div [of 1024 n] by simp
    ultimately have B: "n < 1024 ^ Suc (floor_log1024 n)" by (simp add: eq)
    from A B show ?thesis ..
  qed
qed

lemma floor_log1024_log:
  assumes "0 < n"
  shows "int (floor_log1024 n) = \<lfloor>log 1024 (real n)\<rfloor>"
proof -
  from floor_log1024_bounds [OF assms]
  have "1024 ^ floor_log1024 n \<le> n" and "n < 1024 ^ (floor_log1024 n + 1)" by simp_all
  then show ?thesis
    using floor_log_nat_eq_if [of 1024 "floor_log1024 n" n] by simp
qed

lemma round_scaled_floor:
  "int (round_scaled b i) = \<lfloor>real b / 1024 ^ i * 100 + 1 / 2\<rfloor>"
proof -
  have "real b / 1024 ^ i * 100 + 1 / 2 = real (200 * b + 1024 ^ i) / real (2 * 1024 ^ i)"
    by (simp add: field_simps)
  then show ?thesis
    unfolding round_scaled_def by (simp only: floor_divide_of_nat_eq)
qed

lemma floor_log1024_less:
  assumes "0 < n" and "n < 1024 ^ k"
  shows "floor_log1024 n < k"
proof (rule ccontr)
  assume "\<not> floor_log1024 n < k"
  then have "k \<le> floor_log1024 n" by simp
  then have "(1024::nat) ^ k \<le> 1024 ^ floor_log1024 n"
    by (simp add: power_increasing)
  also have "\<dots> \<le> n" using floor_log1024_bounds [OF assms(1)] by simp
  finally show False using assms(2) by simp
qed

lemma formatFileSize_positive:
  assumes "0 < b" and "b < 1024 ^ 4"
  shows "\<exists>i<4. int i = \<lfloor>log 1024 (real_of_int b)\<rfloor> \<and>
           formatFileSize (Some b) =
             hundredthsToString (nat \<lfloor>real_of_int b / 1024 ^ i * 100 + 1 / 2\<rfloor>) @ js '' '' @
             [js ''Bytes'', js ''KB'', js ''MB'', js ''GB''] ! i"
proof -
  define n where "n = nat b"
  have n: "0 < n" "n < 1024 ^ 4" "b = int n" using assms by (simp_all add: n_def nat_less_iff)
  let ?i = "floor_log1024 n"
  have i4: "?i < 4" using floor_log1024_less [OF n(1,2)] .
  have "int ?i = \<lfloor>log 1024 (real_of_int b)\<rfloor>"
    using floor_log1024_log [OF n(1)] by (simp add: n(3))
  moreover have "round_scaled n ?i = nat \<lfloor>real_of_int b / 1024 ^ ?i * 100 + 1 / 2\<rfloor>"
    using round_scaled_floor [of n ?i] by (simp add: n(3))
  moreover have "formatFileSize (Some b) =
      hundredthsToString (round_scaled n ?i) @ js '' '' @ sizes ! ?i"
    using assms i4 by (simp add: formatFileSize_def Let_def n_def sizes_def)
  ultimately show ?thesis using i4 by (auto simp: sizes_def)
qed

lemmas formatFileSize_eval = formatFileSize_def floor_log1024.simps round_scaled_def
  hundredthsToString_def digits.simps sizes_def js_def

text \<open>
  Claim C7, as the code has it: \<open>formatFileSize\<close> gives \<open>0 Bytes\<close> for an absent or a
  zero count. For a positive count of bytes below \<open>1024 ^ 4\<close> the unit is the one of
  Bytes, KB, MB, GB at index \<open>floor (log 1024 bytes)\<close>, the value is the count divided by
  \<open>1024\<close> to that power and rounded to hundredths, and the result is the value, a space
  and the unit. 1536 bytes are \<open>1.5 KB\<close> and 1073741824 bytes are \<open>1 GB\<close>.
\<close>

theorem formatFileSize_units:
  "formatFileSize None = js ''0 Bytes'' \<and>
   formatFileSize (Some 0) = js ''0 Bytes'' \<and>
   (0 < b \<and> b < 1024 ^ 4 \<longrightarrow>
      (\<exists>i<4. int i = \<lfloor>log 1024 (real_of_int b)\<rfloor> \<and>
         formatFileSize (Some b) =
           hundredthsToString (nat \<lfloor>real_of_int b / 1024 ^ i * 100 + 1 / 2\<rfloor>) @ js '' '' @
           [js ''Bytes'', js ''KB'', js ''MB'', js ''GB''] ! i)) \<and>
   formatFileSize (Some 1536) = js ''1.5 KB'' \<and>
   formatFileSize (Some 1073741824) = js ''1 GB''"
proof -
  have "formatFileSize None = js ''0 Bytes''" "formatFileSize (Some 0) = js ''0 Bytes''"
    by (simp_all add: formatFileSize_def)
  moreover have "formatFileSize (Some 1536) = js ''1.5 KB''"
    by (simp add: formatFileSize_eval)
  moreover have "formatFileSize (Some 1073741824) = js ''1 GB''"
    by (simp add: formatFileSize_eval)
  ultimately show ?thesis using formatFileSize_positive [of b] by blast
qed

theorem formatFileSize_units_witness:
  "(0::int) < 1536 \<and> (1536::int) < 1024 ^ 4 \<and>
   (\<exists>i<4. int i = \<lfloor>log 1024 (real_of_int 1536)\<rfloor> \<and>
      formatFileSize (Some 1536) =
        hundredthsToString (nat \<lfloor>real_of_int 1536 / 1024 ^ i * 100 + 1 / 2\<rfloor>) @ js '' '' @
        [js ''Bytes'', js ''KB'', js ''MB'', js ''GB''] ! i)"
proof -
  have "(0::int) < 1536 \<and> (1536::int) < 1024 ^ 4" by simp
  with formatFileSize_units [of 1536] show ?thesis by blast
qed

text \<open>
  From \<open>1024 ^ 4\<close> bytes on the table of units has no entry at the index. Two tebibytes:
  the index is 4 and the unit printed is \<open>undefined\<close>.
\<close>

theorem formatFileSize_beyond_GB:
  "formatFileSize (Some 2199023255552) = js ''2 undefined'' \<and>
   floor_log1024 2199023255552 = 4 \<and> js ''undefined'' \<notin> set sizes"
  by (simp add: formatFileSize_eval)

section \<open>The authorization cache\<close>

lemmas io_defs = return_def throw_def and_then_def read_state_def modify_def Date_now_def
  randomBytes_def outbound_def sgMail_send_def

lemma authorizeB2_hit:
  "b2Auth s = Some a \<Longrightarrow> now P (clock_reads s) < b2AuthExpiry s \<Longrightarrow>
   authorizeB2 P cfg s = (Inr a, s\<lparr>clock_reads := Suc (clock_reads s)\<rparr>)"
  by (simp add: authorizeB2_def io_defs)

lemma authorizeB2_miss:
  assumes "\<not> (b2Auth s \<noteq> None \<and> now P (clock_reads s) < b2AuthExpiry s)"
  shows "authorizeB2 P cfg s =
    (let s0 = (if b2Auth s = None then s else s\<lparr>clock_reads := Suc (clock_reads s)\<rparr>);
         c = Authorize (B2_ENDPOINT cfg @ js ''/b2api/v2/b2_authorize_account'')
               (js ''Basic '' @ base64 P (toString (B2_KEY_ID cfg) @ js '':'' @
                                           toString (B2_APP_KEY cfg)))
     in case authorize_reply P (length (calls s)) of
          Inl e \<Rightarrow> (Inl e, s0\<lparr>calls := calls s @ [(c, False)]\<rparr>)
        | Inr d \<Rightarrow>
            (Inr d, s0\<lparr>b2Auth := Some d,
                        b2AuthExpiry := now P (clock_reads s0) + 82800000,
                        clock_reads := Suc (clock_reads s0),
                        calls := calls s @ [(c, True)]\<rparr>))"
  using assms
  by (cases "b2Auth s") (simp_all add: authorizeB2_def io_defs Let_def split: sum.splits)

lemma authorizeB2_success:
  assumes "authorizeB2 P cfg s = (Inr a, s1)"
  shows "b2Auth s1 = Some a"
proof (cases "b2Auth s \<noteq> None \<and> now P (clock_reads s) < b2AuthExpiry s")
  case True
  then obtain a0 where "b2Auth s = Some a0" by auto
  with True assms authorizeB2_hit [of s a0 P cfg] show ?thesis by auto
next
  case False
  from assms show ?thesis
    unfolding authorizeB2_miss [OF False]
    by (auto simp: Let_def split: sum.splits if_splits)
qed

text \<open>
  Claim C2: when \<open>b2Auth\<close> holds an authorization and the clock reads a time strictly
  before \<open>b2AuthExpiry\<close>, \<open>authorizeB2\<close> returns the cached authorization, makes no
  outbound call and leaves the cache as it is. Otherwise it makes the basic-auth authorize
  call and, when that call succeeds, returns its result, stores it in \<open>b2Auth\<close> and sets
  \<open>b2AuthExpiry\<close> to the next reading of the clock plus 23 hours. So a second call that
  follows a successful one, at a time before the expiry, returns the same authorization
  and makes no outbound call.
\<close>

theorem authorizeB2_cache:
  "(b2Auth s = Some a \<and> now P (clock_reads s) < b2AuthExpiry s \<longrightarrow>
      fst (authorizeB2 P cfg s) = Inr a \<and>
      calls (snd (authorizeB2 P cfg s)) = calls s \<and>
      b2Auth (snd (authorizeB2 P cfg s)) = Some a \<and>
      b2AuthExpiry (snd (authorizeB2 P cfg s)) = b2AuthExpiry s) \<and>
   (\<not> (b2Auth s \<noteq> None \<and> now P (clock_reads s) < b2AuthExpiry s) \<longrightarrow>
      (\<exists>ok. calls (snd (authorizeB2 P cfg s)) =
         calls s @ [(Authorize (B2_ENDPOINT cfg @ js ''/b2api/v2/b2_authorize_account'')
                       (js ''Basic '' @ base64 P (toString (B2_KEY_ID cfg) @ js '':'' @
                                                   toString (B2_APP_KEY cfg))), ok)])) \<and>
   (\<not> (b2Auth s \<noteq> None \<and> now P (clock_reads s) < b2AuthExpiry s) \<and>
    authorize_reply P (length (calls s)) = Inr d \<longrightarrow>
      fst (authorizeB2 P cfg s) = Inr d \<and>
      calls (snd (authorizeB2 P cfg s)) =
        calls s @ [(Authorize (B2_ENDPOINT cfg @ js ''/b2api/v2/b2_authorize_account'')
                      (js ''Basic '' @ base64 P (toString (B2_KEY_ID cfg) @ js '':'' @
                                                  toString (B2_APP_KEY cfg))), True)] \<and>
      b2Auth (snd (authorizeB2 P cfg s)) = Some d \<and>
      (\<exists>k. clock_reads (snd (authorizeB2 P cfg s)) = Suc k \<and>
           b2AuthExpiry (snd (authorizeB2 P cfg s)) = now P k + 23 * 60 * 60 * 1000)) \<and>
   (authorizeB2 P cfg s = (Inr a', s') \<and> now P (clock_reads s') < b2AuthExpiry s' \<longrightarrow>
      fst (authorizeB2 P cfg s') = Inr a' \<and>
      calls (snd (authorizeB2 P cfg s')) = calls s' \<and>
      b2Auth (snd (authorizeB2 P cfg s')) = b2Auth s' \<and>
      b2AuthExpiry (snd (authorizeB2 P cfg s')) = b2AuthExpiry s')"
proof (intro conjI impI)
  assume h: "b2Auth s = Some a \<and> now P (clock_reads s) < b2AuthExpiry s"
  then have "authorizeB2 P cfg s = (Inr a, s\<lparr>clock_reads := Suc (clock_reads s)\<rparr>)"
    by (simp add: authorizeB2_hit)
  then show "fst (authorizeB2 P cfg s) = Inr a"
    "calls (snd (authorizeB2 P cfg s)) = calls s"
    "b2Auth (snd (authorizeB2 P cfg s)) = Some a"
    "b2AuthExpiry (snd (authorizeB2 P cfg s)) = b2AuthExpiry s"
    using h by simp_all
next
  assume m: "\<not> (b2Auth s \<noteq> None \<and> now P (clock_reads s) < b2AuthExpiry s)"
  show "\<exists>ok. calls (snd (authorizeB2 P cfg s)) =
         calls s @ [(Authorize (B2_ENDPOINT cfg @ js ''/b2api/v2/b2_authorize_account'')
                       (js ''Basic '' @ base64 P (toString (B2_KEY_ID cfg) @ js '':'' @
                                                   toString (B2_APP_KEY cfg))), ok)]"
    unfolding authorizeB2_miss [OF m] by (auto simp: Let_def split: sum.splits)
next
  assume h: "\<not> (b2Auth s \<noteq> None \<and> now P (clock_reads s) < b2AuthExpiry s) \<and>
    authorize_reply P (length (calls s)) = Inr d"
  then have m: "\<not> (b2Auth s \<noteq> None \<and> now P (clock_reads s) < b2AuthExpiry s)"
    and r: "authorize_reply P (length (calls s)) = Inr d" by simp_all
  show "fst (authorizeB2 P cfg s) = Inr d"
    unfolding authorizeB2_miss [OF m] by (simp add: r Let_def)
  show "calls (snd (authorizeB2 P cfg s)) =
        calls s @ [(Authorize (B2_ENDPOINT cfg @ js ''/b2api/v2/b2_authorize_account'')
                      (js ''Basic '' @ base64 P (toString (B2_KEY_ID cfg) @ js '':'' @
                                                  toString (B2_APP_KEY cfg))), True)]"
    unfolding authorizeB2_miss [OF m] by (simp add: r Let_def)
  show "b2Auth (snd (authorizeB2 P cfg s)) = Some d"
    unfolding authorizeB2_miss [OF m] by (simp add: r Let_def)
  show "\<exists>k. clock_reads (snd (authorizeB2 P cfg s)) = Suc k \<and>
           b2AuthExpiry (snd (authorizeB2 P cfg s)) = now P k + 23 * 60 * 60 * 1000"
    unfolding authorizeB2_miss [OF m] by (simp add: r Let_def)
next
  assume h: "authorizeB2 P cfg s = (Inr a', s') \<and> now P (clock_reads s') < b2AuthExpiry s'"
  then have "b2Auth s' = Some a'" using authorizeB2_success [of P cfg s a' s'] by blast
  with h have "authorizeB2 P cfg s' = (Inr a', s'\<lparr>clock_reads := Suc (clock_reads s')\<rparr>)"
    by (simp add: authorizeB2_hit)
  then show "fst (authorizeB2 P cfg s') = Inr a'"
    "calls (snd (authorizeB2 P cfg s')) = calls s'"
    "b2Auth (snd (authorizeB2 P cfg s')) = b2Auth s'"
    "b2AuthExpiry (snd (authorizeB2 P cfg s')) = b2AuthExpiry s'"
    by simp_all
qed

section \<open>The handlers as state transformers\<close>

lemma editorEmailHtml_error:
  "editorEmailHtml cfg n m links = Inl e \<Longrightarrow> e = TypeError"
  by (simp add: editorEmailHtml_def split: option.splits)

lemma editorEmailHtml_ok:
  "(\<exists>html. editorEmailHtml cfg n m links = Inr html) \<longleftrightarrow> instructions m \<noteq> None"
  by (simp add: editorEmailHtml_def split: option.splits)

lemma sendEditorEmail_run:
  "sendEditorEmail P cfg (Some m) files s =
     (case editor m of
        None \<Rightarrow> (Inl TypeError, s)
      | Some e \<Rightarrow>
          (case files of
             None \<Rightarrow> (Inl TypeError, s)
           | Some fs \<Rightarrow>
               (case editorEmailHtml cfg (split_at_0 e) m (downloadLinks cfg fs) of
                  Inl err \<Rightarrow> (Inl err, s)
                | Inr html \<Rightarrow>
                    (let mail = \<lparr>msg_to = e, msg_from = FROM_EMAIL cfg,
                                 msg_subject = js ''New Footage: '' @ toString (clientName m) @
                                               js '' - '' @ toString (footageType m),
                                 msg_html = html\<rparr>
                     in case send_reply P (length (calls s)) of
                          Some err \<Rightarrow> (Inl err, s\<lparr>calls := calls s @ [(Send mail, False)]\<rparr>)
                        | None \<Rightarrow> (Inr (), s\<lparr>calls := calls s @ [(Send mail, True)]\<rparr>)))))"
  by (simp add: sendEditorEmail_def io_defs Let_def split: option.splits sum.splits)

lemma sendReviewEmail_no_files:
  "sendReviewEmail P cfg md None s = (Inl TypeError, s)"
  by (simp add: sendReviewEmail_def io_defs)

lemma sendReviewEmail_run:
  "sendReviewEmail P cfg (Some m) (Some fs) s =
     (let reviewId = toHex (map (random P) [random_reads s ..< random_reads s + 16]);
          s1 = s\<lparr>random_reads := random_reads s + 16, clock_reads := Suc (clock_reads s)\<rparr>
      in case encodeURIComponent P (toString (projectName m)) of
           None \<Rightarrow> (Inl URIError, s1)
         | Some project \<Rightarrow>
             (let mail = \<lparr>msg_to = BOSS_EMAIL cfg, msg_from = FROM_EMAIL cfg,
                          msg_subject = js ''Review Required: '' @ toString (projectName m),
                          msg_html = reviewEmailHtml cfg m (toLocaleString P (now P (clock_reads s)))
                                       (downloadLinks cfg fs) reviewId project\<rparr>
              in case send_reply P (length (calls s)) of
                   Some err \<Rightarrow> (Inl err, s1\<lparr>calls := calls s @ [(Send mail, False)]\<rparr>)
                 | None \<Rightarrow>
                     (Inr (), s1\<lparr>calls := calls s @ [(Send mail, True)],
                                  clock_reads := Suc (Suc (clock_reads s)),
                                  reviewData := Some ((case reviewData s of
                                                         None \<Rightarrow> Map.empty | Some d \<Rightarrow> d)
                                    (reviewId \<mapsto> \<lparr>entry_metadata = m, entry_files = fs,
                                                  entry_timestamp = now P (Suc (clock_reads s))\<rparr>))\<rparr>)))"
  by (simp add: sendReviewEmail_def io_defs Let_def split: option.splits sum.splits)

lemma handleUploadComplete_run:
  "handleUploadComplete P cfg req s =
     (case body req of
        None \<Rightarrow> (Inl TypeError, s)
      | Some b \<Rightarrow>
          (case body_metadata b of
             None \<Rightarrow> (Inl TypeError, s)
           | Some m \<Rightarrow>
               (case (if uploadType m = Some (js ''raw'')
                      then sendEditorEmail P cfg (Some m) (body_files b) s
                      else sendReviewEmail P cfg (Some m) (body_files b) s) of
                  (Inl e, s') \<Rightarrow> (Inl e, s')
                | (Inr u, s') \<Rightarrow>
                    (Inr \<lparr>status = 200,
                          res_body = SuccessBody True (js ''Notifications sent'')\<rparr>, s'))))"
  by (simp add: handleUploadComplete_def io_defs split: option.splits)

lemma module_exports_default:
  assumes "action (bindingData ctx) \<noteq> Some (js ''prepare'')"
    and "action (bindingData ctx) \<noteq> Some (js ''complete'')"
  shows "module_exports P cfg ctx req s =
           (\<lparr>status = 400, res_body = ErrorBody (Text (js ''Invalid action''))\<rparr>, s)"
proof -
  have "or_default (action (bindingData ctx)) (js '''') \<noteq> js ''prepare''"
    using assms(1) by (auto simp: or_default_def js_def split: option.splits)
  moreover have "or_default (action (bindingData ctx)) (js '''') \<noteq> js ''complete''"
    using assms(2) by (auto simp: or_default_def js_def split: option.splits)
  ultimately show ?thesis
    by (simp add: module_exports_def Let_def return_def)
qed

text \<open>
  Claim C9: when the action of the request is neither \<open>prepare\<close> nor \<open>complete\<close>, an
  absent action included, the response is status 400 with the error \<open>Invalid action\<close>,
  and the state of the process is the one before the request: no outbound call, no change
  of the authorization cache or of the review data.
\<close>

theorem invalid_action_400:
  assumes "action (bindingData ctx) \<noteq> Some (js ''prepare'')"
    and "action (bindingData ctx) \<noteq> Some (js ''complete'')"
  shows "module_exports P cfg ctx req s =
           (\<lparr>status = 400, res_body = ErrorBody (Text (js ''Invalid action''))\<rparr>, s)"
  using assms by (rule module_exports_default)

text \<open>
  Claim C1: a complete request that carries metadata is routed by \<open>uploadType\<close> alone.
  With the value \<open>raw\<close> the handler is the editor-assignment path followed by the
  response 200; with any other value, or none, it is the review-request path followed by
  the response 200. (The discriminator is read from the metadata, so a request without a
  body or without metadata throws at that read, before either path.)
\<close>

theorem upload_type_dispatch:
  assumes "body req = Some b" and "body_metadata b = Some m"
  shows "(uploadType m = Some (js ''raw'') \<longrightarrow>
            handleUploadComplete P cfg req =
              and_then (sendEditorEmail P cfg (Some m) (body_files b))
                (\<lambda>_. return \<lparr>status = 200,
                               res_body = SuccessBody True (js ''Notifications sent'')\<rparr>)) \<and>
         (uploadType m \<noteq> Some (js ''raw'') \<longrightarrow>
            handleUploadComplete P cfg req =
              and_then (sendReviewEmail P cfg (Some m) (body_files b))
                (\<lambda>_. return \<lparr>status = 200,
                               res_body = SuccessBody True (js ''Notifications sent'')\<rparr>))"
  using assms by (simp add: handleUploadComplete_def)

section \<open>What each handler leaves unchanged\<close>

lemma authorizeB2_frame:
  "reviewData (snd (authorizeB2 P cfg s)) = reviewData s \<and>
   random_reads (snd (authorizeB2 P cfg s)) = random_reads s"
proof (cases "b2Auth s \<noteq> None \<and> now P (clock_reads s) < b2AuthExpiry s")
  case True
  then obtain a where "b2Auth s = Some a" by auto
  with True show ?thesis by (simp add: authorizeB2_hit)
next
  case False
  show ?thesis
    unfolding authorizeB2_miss [OF False] by (simp add: Let_def split: sum.splits)
qed

lemma handlePrepareUpload_run:
  "handlePrepareUpload P cfg req s =
     (case body req of
        None \<Rightarrow> (Inl TypeError, s)
      | Some b \<Rightarrow>
          (case authorizeB2 P cfg s of
             (Inl e, s1) \<Rightarrow> (Inl e, s1)
           | (Inr auth, s1) \<Rightarrow>
               (let timestamp = now P (clock_reads s1);
                    bytes = map (random P) [random_reads s1 ..< random_reads s1 + 4];
                    s2 = s1\<lparr>clock_reads := Suc (clock_reads s1),
                            random_reads := random_reads s1 + 4\<rparr>
                in case planPath timestamp (body_fileName b) (body_metadata b) of
                     Inl e \<Rightarrow> (Inl e, s2)
                   | Inr path \<Rightarrow>
                       (let c = GetUploadUrl (toString (apiUrl auth) @
                                              js ''/b2api/v2/b2_get_upload_url'')
                                  (B2_BUCKET_ID cfg) (authorizationToken auth)
                        in case upload_url_reply P (length (calls s1)) of
                             Inl e \<Rightarrow> (Inl e, s2\<lparr>calls := calls s1 @ [(c, False)]\<rparr>)
                           | Inr data \<Rightarrow>
                               (Inr \<lparr>status = 200,
                                     res_body = PreparedBody
                                       \<lparr>uploadUrl = data_uploadUrl data,
                                        authToken = data_authorizationToken data,
                                        fileId = numberToString timestamp @ js ''_'' @
                                                 toHex bytes,
                                        filePath = path\<rparr>\<rparr>,
                                s2\<lparr>calls := calls s1 @ [(c, True)]\<rparr>)))))"
  by (simp add: handlePrepareUpload_def io_defs Let_def split: option.splits sum.splits prod.splits)

lemma handlePrepareUpload_reviewData:
  "reviewData (snd (handlePrepareUpload P cfg req s)) = reviewData s"
proof -
  obtain r s1 where a: "authorizeB2 P cfg s = (r, s1)" by (cases "authorizeB2 P cfg s")
  then have "reviewData s1 = reviewData s" using authorizeB2_frame [of P cfg s] by simp
  then show ?thesis
    unfolding handlePrepareUpload_run
    by (simp add: a Let_def split: option.splits sum.splits)
qed

lemma sendEditorEmail_frame:
  "b2Auth (snd (sendEditorEmail P cfg (Some m) files s)) = b2Auth s \<and>
   b2AuthExpiry (snd (sendEditorEmail P cfg (Some m) files s)) = b2AuthExpiry s \<and>
   reviewData (snd (sendEditorEmail P cfg (Some m) files s)) = reviewData s"
  unfolding sendEditorEmail_run by (simp add: Let_def split: option.splits sum.splits)

lemma sendReviewEmail_frame:
  "b2Auth (snd (sendReviewEmail P cfg (Some m) files s)) = b2Auth s \<and>
   b2AuthExpiry (snd (sendReviewEmail P cfg (Some m) files s)) = b2AuthExpiry s"
proof (cases files)
  case None
  then show ?thesis by (simp add: sendReviewEmail_no_files)
next
  case (Some fs)
  show ?thesis
    unfolding Some sendReviewEmail_run by (simp add: Let_def split: option.splits)
qed

lemma handleUploadComplete_auth:
  "b2Auth (snd (handleUploadComplete P cfg req s)) = b2Auth s \<and>
   b2AuthExpiry (snd (handleUploadComplete P cfg req s)) = b2AuthExpiry s"
proof (cases "body req")
  case None
  then show ?thesis by (simp add: handleUploadComplete_run)
next
  case (Some b)
  show ?thesis
  proof (cases "body_metadata b")
    case None
    with Some show ?thesis by (simp add: handleUploadComplete_run)
  next
    case m: (Some m)
    show ?thesis
    proof (cases "uploadType m = Some (js ''raw'')")
      case True
      obtain r s' where e: "sendEditorEmail P cfg (Some m) (body_files b) s = (r, s')"
        by (cases "sendEditorEmail P cfg (Some m) (body_files b) s")
      with sendEditorEmail_frame [of P cfg m "body_files b" s]
      show ?thesis
        by (simp add: handleUploadComplete_run Some m True split: sum.splits)
    next
      case False
      obtain r s' where e: "sendReviewEmail P cfg (Some m) (body_files b) s = (r, s')"
        by (cases "sendReviewEmail P cfg (Some m) (body_files b) s")
      with sendReviewEmail_frame [of P cfg m "body_files b" s]
      show ?thesis
        by (simp add: handleUploadComplete_run Some m False split: sum.splits)
    qed
  qed
qed

lemma handleUploadComplete_reviewData:
  assumes "reviewData (snd (handleUploadComplete P cfg req s)) \<noteq> reviewData s"
  shows "\<exists>b m. body req = Some b \<and> body_metadata b = Some m \<and>
           uploadType m \<noteq> Some (js ''raw'')"
proof (cases "body req")
  case None
  with assms show ?thesis by (simp add: handleUploadComplete_run)
next
  case (Some b)
  show ?thesis
  proof (cases "body_metadata b")
    case None
    with Some assms show ?thesis by (simp add: handleUploadComplete_run)
  next
    case m: (Some m)
    show ?thesis
    proof (cases "uploadType m = Some (js ''raw'')")
      case True
      obtain r s' where e: "sendEditorEmail P cfg (Some m) (body_files b) s = (r, s')"
        by (cases "sendEditorEmail P cfg (Some m) (body_files b) s")
      with sendEditorEmail_frame [of P cfg m "body_files b" s] assms
      show ?thesis
        by (simp add: handleUploadComplete_run Some m True split: sum.splits)
    next
      case False
      with Some m show ?thesis by simp
    qed
  qed
qed

lemma module_exports_prepare:
  "action (bindingData ctx) = Some (js ''prepare'') \<Longrightarrow>
   module_exports P cfg ctx req s =
     (case handlePrepareUpload P cfg req s of
        (Inr res, s') \<Rightarrow> (res, s')
      | (Inl e, s') \<Rightarrow> (\<lparr>status = 500, res_body = ErrorBody (MessageOf e)\<rparr>, s'))"
  by (simp add: module_exports_def or_default_def js_def)

lemma module_exports_complete:
  "action (bindingData ctx) = Some (js ''complete'') \<Longrightarrow>
   module_exports P cfg ctx req s =
     (case handleUploadComplete P cfg req s of
        (Inr res, s') \<Rightarrow> (res, s')
      | (Inl e, s') \<Rightarrow> (\<lparr>status = 500, res_body = ErrorBody (MessageOf e)\<rparr>, s'))"
  by (simp add: module_exports_def or_default_def js_def)

lemma module_exports_state:
  "snd (module_exports P cfg ctx req s) =
     (if action (bindingData ctx) = Some (js ''prepare'')
      then snd (handlePrepareUpload P cfg req s)
      else if action (bindingData ctx) = Some (js ''complete'')
      then snd (handleUploadComplete P cfg req s)
      else s)"
proof -
  have "snd (case x of (Inr res, s') \<Rightarrow> (res, s')
                | (Inl e, s') \<Rightarrow> (\<lparr>status = 500, res_body = ErrorBody (MessageOf e)\<rparr>, s'))
        = snd x" for x :: "(error + response) \<times> state"
    by (cases x) (simp split: sum.splits)
  then show ?thesis
    by (auto simp: module_exports_prepare module_exports_complete module_exports_default)
qed

text \<open>
  Claim C10: a complete request with \<open>uploadType\<close> \<open>raw\<close> leaves \<open>b2Auth\<close>,
  \<open>b2AuthExpiry\<close> and \<open>reviewData\<close> as they were, and a prepare request leaves
  \<open>reviewData\<close> as it was. Only a prepare request changes the authorization cache, and
  only a complete request whose \<open>uploadType\<close> is not \<open>raw\<close> changes \<open>reviewData\<close>.
\<close>

theorem frame_conditions:
  "(action (bindingData ctx) = Some (js ''complete'') \<and> body req = Some b \<and>
    body_metadata b = Some m \<and> uploadType m = Some (js ''raw'') \<longrightarrow>
      b2Auth (snd (module_exports P cfg ctx req s)) = b2Auth s \<and>
      b2AuthExpiry (snd (module_exports P cfg ctx req s)) = b2AuthExpiry s \<and>
      reviewData (snd (module_exports P cfg ctx req s)) = reviewData s) \<and>
   (action (bindingData ctx) = Some (js ''prepare'') \<longrightarrow>
      reviewData (snd (module_exports P cfg ctx req s)) = reviewData s) \<and>
   (b2Auth (snd (module_exports P cfg ctx req s)) \<noteq> b2Auth s \<or>
    b2AuthExpiry (snd (module_exports P cfg ctx req s)) \<noteq> b2AuthExpiry s \<longrightarrow>
      action (bindingData ctx) = Some (js ''prepare'')) \<and>
   (reviewData (snd (module_exports P cfg ctx req s)) \<noteq> reviewData s \<longrightarrow>
      action (bindingData ctx) = Some (js ''complete'') \<and>
      (\<exists>b m. body req = Some b \<and> body_metadata b = Some m \<and>
             uploadType m \<noteq> Some (js ''raw'')))"
proof (intro conjI impI)
  assume h: "action (bindingData ctx) = Some (js ''complete'') \<and> body req = Some b \<and>
    body_metadata b = Some m \<and> uploadType m = Some (js ''raw'')"
  then have st: "snd (module_exports P cfg ctx req s) = snd (handleUploadComplete P cfg req s)"
    by (simp add: module_exports_state js_def)
  show "b2Auth (snd (module_exports P cfg ctx req s)) = b2Auth s"
    "b2AuthExpiry (snd (module_exports P cfg ctx req s)) = b2AuthExpiry s"
    unfolding st by (simp_all add: handleUploadComplete_auth)
  show "reviewData (snd (module_exports P cfg ctx req s)) = reviewData s"
    unfolding st using h handleUploadComplete_reviewData [of P cfg req s] by auto
next
  assume "action (bindingData ctx) = Some (js ''prepare'')"
  then show "reviewData (snd (module_exports P cfg ctx req s)) = reviewData s"
    by (simp add: module_exports_state handlePrepareUpload_reviewData)
next
  assume "b2Auth (snd (module_exports P cfg ctx req s)) \<noteq> b2Auth s \<or>
    b2AuthExpiry (snd (module_exports P cfg ctx req s)) \<noteq> b2AuthExpiry s"
  then show "action (bindingData ctx) = Some (js ''prepare'')"
    by (auto simp: module_exports_state handleUploadComplete_auth split: if_splits)
next
  assume h: "reviewData (snd (module_exports P cfg ctx req s)) \<noteq> reviewData s"
  then show "action (bindingData ctx) = Some (js ''complete'')"
    by (auto simp: module_exports_state handlePrepareUpload_reviewData split: if_splits)
  with h show "\<exists>b m. body req = Some b \<and> body_metadata b = Some m \<and>
             uploadType m \<noteq> Some (js ''raw'')"
    using handleUploadComplete_reviewData [of P cfg req s]
    by (simp add: module_exports_state js_def)
qed

lemma handleUploadComplete_raw:
  assumes "body req = Some b" and "body_metadata b = Some m"
    and "uploadType m = Some (js ''raw'')"
  shows "((\<forall>res. fst (handleUploadComplete P cfg req s) \<noteq> Inr res) \<and>
          snd (handleUploadComplete P cfg req s) = s) \<or>
         (\<exists>e html ok. editor m = Some e \<and>
            (ok \<longleftrightarrow> fst (handleUploadComplete P cfg req s) =
                     Inr \<lparr>status = 200,
                          res_body = SuccessBody True (js ''Notifications sent'')\<rparr>) \<and>
            (\<not> ok \<longleftrightarrow> (\<exists>err. fst (handleUploadComplete P cfg req s) = Inl err)) \<and>
            snd (handleUploadComplete P cfg req s) =
              s\<lparr>calls := calls s @
                 [(Send \<lparr>msg_to = e, msg_from = FROM_EMAIL cfg,
                         msg_subject = js ''New Footage: '' @ toString (clientName m) @
                                       js '' - '' @ toString (footageType m),
                         msg_html = html\<rparr>, ok)]\<rparr>)"
  using assms
  by (auto simp: handleUploadComplete_run sendEditorEmail_run Let_def
           split: option.splits sum.splits)

lemma handleUploadComplete_review:
  assumes "body req = Some b" and "body_metadata b = Some m"
    and "uploadType m \<noteq> Some (js ''raw'')"
  shows "((\<forall>res. fst (handleUploadComplete P cfg req s) \<noteq> Inr res) \<and>
          calls (snd (handleUploadComplete P cfg req s)) = calls s \<and>
          reviewData (snd (handleUploadComplete P cfg req s)) = reviewData s) \<or>
         (\<exists>html ok. 
            (ok \<longleftrightarrow> fst (handleUploadComplete P cfg req s) =
                     Inr \<lparr>status = 200,
                          res_body = SuccessBody True (js ''Notifications sent'')\<rparr>) \<and>
            (\<not> ok \<longleftrightarrow> (\<exists>err. fst (handleUploadComplete P cfg req s) = Inl err)) \<and>
            (\<not> ok \<longrightarrow> reviewData (snd (handleUploadComplete P cfg req s)) = reviewData s) \<and>
            calls (snd (handleUploadComplete P cfg req s)) =
              calls s @
                 [(Send \<lparr>msg_to = BOSS_EMAIL cfg, msg_from = FROM_EMAIL cfg,
                         msg_subject = js ''Review Required: '' @ toString (projectName m),
                         msg_html = html\<rparr>, ok)])"
proof (cases "body_files b")
  case None
  with assms show ?thesis
    by (simp add: handleUploadComplete_run sendReviewEmail_no_files)
next
  case (Some fs)
  with assms show ?thesis
    by (auto simp: handleUploadComplete_run sendReviewEmail_run Let_def
           split: option.splits sum.splits)
qed

section \<open>The sample prepare request\<close>

text \<open>
  The scenario of the specification: \<open>clip.mp4\<close> for the client \<open>Acme Co\<close>, editor
  \<open>jane@x.com\<close>, in a freshly loaded process.
\<close>

lemmas sample_defs = initial_state_def sample_platform_def sample_config_def config_of_def
  or_default_def raw_metadata_def edited_metadata_def sample_files_def prepare_request_def
  complete_request_def call_with_def prepare_body_def complete_body_def
  sample_authorization_def authorized_state_def

lemmas string_eval = js_def toString_def numberToString_def digits.simps toHex_def hexByte_def
  hexDigit_def split_at_0_def is_space_def

lemma sample_authorize:
  "authorizeB2 sample_platform sample_config initial_state =
     (Inr sample_authorization, authorized_state)"
  by (simp add: authorizeB2_miss sample_defs Let_def toString_def js_def)

lemma sample_prepare_raw:
  "handlePrepareUpload sample_platform sample_config (prepare_request raw_metadata)
     initial_state =
     (Inr \<lparr>status = 200,
           res_body = PreparedBody
             \<lparr>uploadUrl = Some (js ''https://pod.backblazeb2.com/u''),
              authToken = Some (js ''uploadtoken''),
              fileId = js ''1700000000001_03142536'',
              filePath = js ''raw_uploads/jane/1700000000001_Acme_Co/clip.mp4''\<rparr>\<rparr>,
      \<lparr>b2Auth = Some sample_authorization,
       b2AuthExpiry = 1700082800000, reviewData = None, clock_reads = 2, random_reads = 4,
       calls = [(Authorize (js ''https://api.backblazeb2.com/b2api/v2/b2_authorize_account'')
                           (js ''Basic key:secret''), True),
                (GetUploadUrl (js ''https://api001.backblazeb2.com/b2api/v2/b2_get_upload_url'')
                              (Some (js ''bucket'')) (Some (js ''token'')), True)]\<rparr>)"
  unfolding handlePrepareUpload_run
  apply (simp add: prepare_request_def prepare_body_def sample_authorize)
  apply (simp add: sample_defs Let_def planPath_def string_eval upt_rec)
  done

section \<open>The emails of a complete request\<close>

text \<open>
  Claim C4: a complete request sends at most one email, and sends one whenever it
  succeeds. With \<open>uploadType\<close> \<open>raw\<close> that email goes to \<open>metadata.editor\<close> with the
  subject \<open>New Footage: \<close>, the client name, \<open> - \<close> and the footage type. With any other
  \<open>uploadType\<close>, \<open>edited\<close> among them, it goes to the configured \<open>BOSS_EMAIL\<close>, which
  no field of the request enters, with the subject \<open>Review Required: \<close> and the project
  name.
\<close>

theorem notification_envelope:
  assumes "body req = Some b" and "body_metadata b = Some m"
  shows "(uploadType m = Some (js ''raw'') \<longrightarrow>
            ((\<forall>res. fst (handleUploadComplete P cfg req s) \<noteq> Inr res) \<and>
             calls (snd (handleUploadComplete P cfg req s)) = calls s) \<or>
            (\<exists>e html ok. editor m = Some e \<and>
               (ok \<longleftrightarrow> (\<exists>res. fst (handleUploadComplete P cfg req s) = Inr res)) \<and>
               calls (snd (handleUploadComplete P cfg req s)) =
                 calls s @
                 [(Send \<lparr>msg_to = e, msg_from = FROM_EMAIL cfg,
                         msg_subject = js ''New Footage: '' @ toString (clientName m) @
                                       js '' - '' @ toString (footageType m),
                         msg_html = html\<rparr>, ok)])) \<and>
         (uploadType m \<noteq> Some (js ''raw'') \<longrightarrow>
            ((\<forall>res. fst (handleUploadComplete P cfg req s) \<noteq> Inr res) \<and>
             calls (snd (handleUploadComplete P cfg req s)) = calls s) \<or>
            (\<exists>html ok.
               (ok \<longleftrightarrow> (\<exists>res. fst (handleUploadComplete P cfg req s) = Inr res)) \<and>
               calls (snd (handleUploadComplete P cfg req s)) =
                 calls s @
                 [(Send \<lparr>msg_to = BOSS_EMAIL cfg, msg_from = FROM_EMAIL cfg,
                         msg_subject = js ''Review Required: '' @ toString (projectName m),
                         msg_html = html\<rparr>, ok)]))"
proof (intro conjI impI)
  assume raw: "uploadType m = Some (js ''raw'')"
  from handleUploadComplete_raw [OF assms raw, of P cfg s]
  show "((\<forall>res. fst (handleUploadComplete P cfg req s) \<noteq> Inr res) \<and>
             calls (snd (handleUploadComplete P cfg req s)) = calls s) \<or>
            (\<exists>e html ok. editor m = Some e \<and>
               (ok \<longleftrightarrow> (\<exists>res. fst (handleUploadComplete P cfg req s) = Inr res)) \<and>
               calls (snd (handleUploadComplete P cfg req s)) =
                 calls s @
                 [(Send \<lparr>msg_to = e, msg_from = FROM_EMAIL cfg,
                         msg_subject = js ''New Footage: '' @ toString (clientName m) @
                                       js '' - '' @ toString (footageType m),
                         msg_html = html\<rparr>, ok)])"
  proof (elim disjE exE conjE)
    assume "\<forall>res. fst (handleUploadComplete P cfg req s) \<noteq> Inr res"
      and "snd (handleUploadComplete P cfg req s) = s"
    then show ?thesis by simp
  next
    fix e html ok
    assume e: "editor m = Some e"
      and ok: "ok = (fst (handleUploadComplete P cfg req s) =
                     Inr \<lparr>status = 200,
                          res_body = SuccessBody True (js ''Notifications sent'')\<rparr>)"
      and nok: "(\<not> ok) = (\<exists>err. fst (handleUploadComplete P cfg req s) = Inl err)"
      and st: "snd (handleUploadComplete P cfg req s) =
              s\<lparr>calls := calls s @
                 [(Send \<lparr>msg_to = e, msg_from = FROM_EMAIL cfg,
                         msg_subject = js ''New Footage: '' @ toString (clientName m) @
                                       js '' - '' @ toString (footageType m),
                         msg_html = html\<rparr>, ok)]\<rparr>"
    have "ok \<longleftrightarrow> (\<exists>res. fst (handleUploadComplete P cfg req s) = Inr res)"
      using ok nok by (cases "fst (handleUploadComplete P cfg req s)") auto
    with e st show ?thesis by (intro disjI2 exI [of _ e] exI [of _ html] exI [of _ ok]) simp
  qed
next
  assume nraw: "uploadType m \<noteq> Some (js ''raw'')"
  from handleUploadComplete_review [OF assms nraw, of P cfg s]
  show "((\<forall>res. fst (handleUploadComplete P cfg req s) \<noteq> Inr res) \<and>
             calls (snd (handleUploadComplete P cfg req s)) = calls s) \<or>
            (\<exists>html ok.
               (ok \<longleftrightarrow> (\<exists>res. fst (handleUploadComplete P cfg req s) = Inr res)) \<and>
               calls (snd (handleUploadComplete P cfg req s)) =
                 calls s @
                 [(Send \<lparr>msg_to = BOSS_EMAIL cfg, msg_from = FROM_EMAIL cfg,
                         msg_subject = js ''Review Required: '' @ toString (projectName m),
                         msg_html = html\<rparr>, ok)])"
  proof (elim disjE exE conjE)
    assume "\<forall>res. fst (handleUploadComplete P cfg req s) \<noteq> Inr res"
      and "calls (snd (handleUploadComplete P cfg req s)) = calls s"
    then show ?thesis by simp
  next
    fix html ok
    assume ok: "ok = (fst (handleUploadComplete P cfg req s) =
                     Inr \<lparr>status = 200,
                          res_body = SuccessBody True (js ''Notifications sent'')\<rparr>)"
      and nok: "(\<not> ok) = (\<exists>err. fst (handleUploadComplete P cfg req s) = Inl err)"
      and st: "calls (snd (handleUploadComplete P cfg req s)) =
              calls s @
                 [(Send \<lparr>msg_to = BOSS_EMAIL cfg, msg_from = FROM_EMAIL cfg,
                         msg_subject = js ''Review Required: '' @ toString (projectName m),
                         msg_html = html\<rparr>, ok)]"
    have "ok \<longleftrightarrow> (\<exists>res. fst (handleUploadComplete P cfg req s) = Inr res)"
      using ok nok by (cases "fst (handleUploadComplete P cfg req s)") auto
    with st show ?thesis by (intro disjI2 exI [of _ html] exI [of _ ok]) simp
  qed
qed

lemma handleUploadComplete_outcome:
  "(fst (handleUploadComplete P cfg req s) =
      Inr \<lparr>status = 200, res_body = SuccessBody True (js ''Notifications sent'')\<rparr> \<and>
    (\<exists>mail. calls (snd (handleUploadComplete P cfg req s)) = calls s @ [(Send mail, True)])) \<or>
   ((\<exists>e. fst (handleUploadComplete P cfg req s) = Inl e) \<and>
    (calls (snd (handleUploadComplete P cfg req s)) = calls s \<or>
     (\<exists>mail. calls (snd (handleUploadComplete P cfg req s)) = calls s @ [(Send mail, False)])) \<and>
    reviewData (snd (handleUploadComplete P cfg req s)) = reviewData s)"
proof (cases "body req")
  case None
  then show ?thesis by (simp add: handleUploadComplete_run)
next
  case (Some b)
  show ?thesis
  proof (cases "body_metadata b")
    case None
    with Some show ?thesis by (simp add: handleUploadComplete_run)
  next
    case m: (Some m)
    show ?thesis
    proof (cases "uploadType m = Some (js ''raw'')")
      case True
      from handleUploadComplete_raw [OF Some m True, of P cfg s] show ?thesis
      proof (elim disjE exE conjE)
        assume a: "\<forall>res. fst (handleUploadComplete P cfg req s) \<noteq> Inr res"
          and b: "snd (handleUploadComplete P cfg req s) = s"
        from a obtain e where "fst (handleUploadComplete P cfg req s) = Inl e"
          by (cases "fst (handleUploadComplete P cfg req s)") auto
        with b show ?thesis by simp
      next
        fix e html ok
        assume ok: "ok = (fst (handleUploadComplete P cfg req s) =
                     Inr \<lparr>status = 200,
                          res_body = SuccessBody True (js ''Notifications sent'')\<rparr>)"
          and nok: "(\<not> ok) = (\<exists>err. fst (handleUploadComplete P cfg req s) = Inl err)"
          and st: "snd (handleUploadComplete P cfg req s) =
              s\<lparr>calls := calls s @
                 [(Send \<lparr>msg_to = e, msg_from = FROM_EMAIL cfg,
                         msg_subject = js ''New Footage: '' @ toString (clientName m) @
                                       js '' - '' @ toString (footageType m),
                         msg_html = html\<rparr>, ok)]\<rparr>"
        show ?thesis
        proof (cases ok)
          case True
          with ok st show ?thesis by simp
        next
          case False
          with nok st show ?thesis by simp
        qed
      qed
    next
      case False
      from handleUploadComplete_review [OF Some m False, of P cfg s] show ?thesis
      proof (elim disjE exE conjE)
        assume a: "\<forall>res. fst (handleUploadComplete P cfg req s) \<noteq> Inr res"
          and b: "calls (snd (handleUploadComplete P cfg req s)) = calls s"
          and c: "reviewData (snd (handleUploadComplete P cfg req s)) = reviewData s"
        from a obtain e where "fst (handleUploadComplete P cfg req s) = Inl e"
          by (cases "fst (handleUploadComplete P cfg req s)") auto
        with b c show ?thesis by simp
      next
        fix html ok
        assume ok: "ok = (fst (handleUploadComplete P cfg req s) =
                     Inr \<lparr>status = 200,
                          res_body = SuccessBody True (js ''Notifications sent'')\<rparr>)"
          and nok: "(\<not> ok) = (\<exists>err. fst (handleUploadComplete P cfg req s) = Inl err)"
          and rd: "\<not> ok \<longrightarrow> reviewData (snd (handleUploadComplete P cfg req s)) = reviewData s"
          and st: "calls (snd (handleUploadComplete P cfg req s)) =
              calls s @
                 [(Send \<lparr>msg_to = BOSS_EMAIL cfg, msg_from = FROM_EMAIL cfg,
                         msg_subject = js ''Review Required: '' @ toString (projectName m),
                         msg_html = html\<rparr>, ok)]"
        show ?thesis
        proof (cases ok)
          case True
          with ok st show ?thesis by simp
        next
          case False
          with nok st rd show ?thesis by simp
        qed
      qed
    qed
  qed
qed

text \<open>
  Claim C6: a complete request either answers 200 after exactly one email send, which
  succeeded, or answers 500 after no send or one send that failed; in the second case
  \<open>reviewData\<close> is as it was before the request, so a failed send on the review path
  adds no entry.
\<close>

theorem complete_atomic:
  assumes "action (bindingData ctx) = Some (js ''complete'')"
  shows "(fst (module_exports P cfg ctx req s) =
            \<lparr>status = 200, res_body = SuccessBody True (js ''Notifications sent'')\<rparr> \<and>
          (\<exists>mail. calls (snd (module_exports P cfg ctx req s)) =
                     calls s @ [(Send mail, True)])) \<or>
         ((\<exists>e. fst (module_exports P cfg ctx req s) =
                  \<lparr>status = 500, res_body = ErrorBody (MessageOf e)\<rparr>) \<and>
          (calls (snd (module_exports P cfg ctx req s)) = calls s \<or>
           (\<exists>mail. calls (snd (module_exports P cfg ctx req s)) =
                      calls s @ [(Send mail, False)])) \<and>
          reviewData (snd (module_exports P cfg ctx req s)) = reviewData s)"
proof -
  obtain r s' where run: "handleUploadComplete P cfg req s = (r, s')"
    by (cases "handleUploadComplete P cfg req s")
  from handleUploadComplete_outcome [of P cfg req s] show ?thesis
    unfolding module_exports_complete [OF assms] run
    by (cases r) auto
qed

section \<open>Hexadecimal encoding\<close>

lemma hexDigit_table: "map hexDigit [0..<16] = js ''0123456789abcdef''"
  by (simp add: upt_rec hexDigit_def js_def)

lemma distinct_hex_digits: "distinct (js ''0123456789abcdef'')"
  by (simp add: js_def)

lemma hexDigit_nth: "d < 16 \<Longrightarrow> hexDigit d = js ''0123456789abcdef'' ! d"
proof -
  assume "d < 16"
  then have "map hexDigit [0..<16] ! d = hexDigit ([0..<16] ! d)"
    by (intro nth_map) simp
  also have "[0..<16] ! d = d" using \<open>d < 16\<close> by simp
  finally show ?thesis by (simp only: hexDigit_table)
qed

lemma length_hex_digits: "length (js ''0123456789abcdef'') = 16"
  by (simp add: js_def)

lemma hexDigit_in: "d < 16 \<Longrightarrow> hexDigit d \<in> set (js ''0123456789abcdef'')"
  by (simp only: hexDigit_nth) (rule nth_mem, simp only: length_hex_digits)

lemma hexDigit_inj: "a < 16 \<Longrightarrow> b < 16 \<Longrightarrow> hexDigit a = hexDigit b \<Longrightarrow> a = b"
  using distinct_hex_digits
  by (simp only: hexDigit_nth) (simp add: nth_eq_iff_index_eq length_hex_digits)

lemma hexByte_inj: "hexByte a = hexByte b \<Longrightarrow> a = b"
proof -
  assume eq: "hexByte a = hexByte b"
  have lt: "unat x div 16 < 16" "unat x mod 16 < 16" for x :: "8 word"
  proof -
    have "unat x < 2 ^ LENGTH(8)" by (rule unsigned_less)
    then have "unat x < 256" by simp
    then show "unat x div 16 < 16" "unat x mod 16 < 16" by simp_all
  qed
  from eq have "hexDigit (unat a div 16) = hexDigit (unat b div 16)"
    and "hexDigit (unat a mod 16) = hexDigit (unat b mod 16)"
    by (simp_all add: hexByte_def)
  then have "unat a div 16 = unat b div 16" and "unat a mod 16 = unat b mod 16"
    using lt hexDigit_inj by blast+
  then have "unat a = unat b"
    by (metis div_mult_mod_eq)
  then show "a = b" by (simp add: word_unat_eq_iff)
qed

lemma toHex_inj: "toHex xs = toHex ys \<Longrightarrow> xs = ys"
proof (induction xs arbitrary: ys)
  case Nil
  then show ?case by (cases ys) (simp_all add: toHex_def hexByte_def)
next
  case (Cons x xs)
  show ?case
  proof (cases ys)
    case Nil
    with Cons.prems show ?thesis by (simp add: toHex_def hexByte_def)
  next
    case (Cons y ys')
    with Cons.prems have "hexByte x @ toHex xs = hexByte y @ toHex ys'"
      by (simp add: toHex_def)
    moreover have "length (hexByte x) = length (hexByte y)" by (simp add: hexByte_def)
    ultimately have "hexByte x = hexByte y" and "toHex xs = toHex ys'" by simp_all
    with Cons.IH [of ys'] hexByte_inj [of x y] show ?thesis by (simp add: Cons)
  qed
qed

lemma length_toHex: "length (toHex bs) = 2 * length bs"
  by (induction bs) (simp_all add: toHex_def hexByte_def)

lemma set_toHex: "set (toHex bs) \<subseteq> set (js ''0123456789abcdef'')"
proof -
  have lt: "unat x div 16 < 16" "unat x mod 16 < 16" for x :: "8 word"
  proof -
    have "unat x < 2 ^ LENGTH(8)" by (rule unsigned_less)
    then have "unat x < 256" by simp
    then show "unat x div 16 < 16" "unat x mod 16 < 16" by simp_all
  qed
  have "set (hexByte x) \<subseteq> set (js ''0123456789abcdef'')" for x
    using lt [of x] by (simp add: hexByte_def hexDigit_in)
  then show ?thesis by (auto simp: toHex_def)
qed

section \<open>The parts of a storage path\<close>

lemma not_space_underscore: "\<not> is_space 0x5F"
  by (simp add: is_space_def)

lemma replace_spaces_no_space: "\<forall>x\<in>set (replace_spaces c). \<not> is_space x"
proof (induction c rule: replace_spaces.induct)
  case 1
  show ?case by simp
next
  case (2 c cs)
  show ?case
  proof (cases "is_space c")
    case True
    with "2.IH"(1) show ?thesis by (simp add: not_space_underscore)
  next
    case False
    with "2.IH"(2) show ?thesis by simp
  qed
qed

lemma replace_spaces_id: "\<forall>x\<in>set c. \<not> is_space x \<Longrightarrow> replace_spaces c = c"
  by (induction c) simp_all

lemma split_at_0_prefix:
  "\<exists>rest. e = split_at_0 e @ rest \<and> 0x40 \<notin> set (split_at_0 e) \<and>
          (rest = [] \<or> hd rest = 0x40)"
proof (intro exI conjI)
  show "e = split_at_0 e @ dropWhile (\<lambda>c. c \<noteq> 0x40) e"
    by (simp add: split_at_0_def)
  show "0x40 \<notin> set (split_at_0 e)"
    unfolding split_at_0_def by (auto dest: set_takeWhileD)
  show "dropWhile (\<lambda>c. c \<noteq> 0x40) e = [] \<or> hd (dropWhile (\<lambda>c. c \<noteq> 0x40) e) = 0x40"
    using hd_dropWhile [of "\<lambda>c. c \<noteq> 0x40" e] by auto
qed

lemma decimal_digit_in: "n < 10 \<Longrightarrow> (of_nat (48 + n) :: jschar) \<in> set (js ''0123456789'')"
proof -
  assume "n < 10"
  then have "n \<in> set [0..<10]" by simp
  moreover have "\<forall>k\<in>set [0..<10]. (of_nat (48 + k) :: jschar) \<in> set (js ''0123456789'')"
    by (simp add: upt_rec js_def)
  ultimately show ?thesis by blast
qed

lemma set_digits: "set (digits n) \<subseteq> set (js ''0123456789'')"
proof (induction n rule: digits.induct)
  case (1 n)
  show ?case
  proof (cases "n < 10")
    case True
    then have d: "digits n = [of_nat (48 + n)]" by (subst digits.simps) simp
    show ?thesis unfolding d using decimal_digit_in [OF True] by simp
  next
    case False
    then have d: "digits n = digits (n div 10) @ [of_nat (48 + n mod 10)]"
      by (subst digits.simps) simp
    have "n mod 10 < 10" by simp
    then have "(of_nat (48 + n mod 10) :: jschar) \<in> set (js ''0123456789'')"
      by (rule decimal_digit_in)
    with "1.IH" [OF False] show ?thesis unfolding d by simp
  qed
qed

lemma set_numberToString: "0 \<le> n \<Longrightarrow> set (numberToString n) \<subseteq> set (js ''0123456789'')"
  by (simp add: numberToString_def set_digits)

text \<open>
  Claim C3: when a prepare request succeeds, \<open>fileId\<close> is the timestamp in decimal, an
  underscore and 8 lowercase hexadecimal characters (the encoding of 4 random bytes). With
  \<open>uploadType\<close> \<open>raw\<close>, \<open>filePath\<close> is \<open>raw_uploads/\<close>, the part of the editor's address
  before the first \<open>@\<close>, a slash, the timestamp, an underscore, the client name with every
  run of white space replaced by an underscore, a slash and the file name. With any other
  \<open>uploadType\<close> it is \<open>edited_uploads/review/\<close>, the timestamp, an underscore, the project
  name with white space replaced in the same way, a slash and the file name. The timestamp
  is one reading of the clock, the same in \<open>fileId\<close> and in \<open>filePath\<close>.
\<close>

theorem prepared_upload_paths:
  assumes "handlePrepareUpload P cfg req s = (Inr res, s')"
  shows "\<exists>b m up ts bytes.
           body req = Some b \<and> body_metadata b = Some m \<and>
           status res = 200 \<and> res_body res = PreparedBody up \<and>
           ts = now P (clock_reads (snd (authorizeB2 P cfg s))) \<and>
           bytes = map (random P) [random_reads s ..< random_reads s + 4] \<and>
           fileId up = numberToString ts @ js ''_'' @ toHex bytes \<and>
           (0 \<le> ts \<longrightarrow> set (numberToString ts) \<subseteq> set (js ''0123456789'')) \<and>
           length (toHex bytes) = 8 \<and> set (toHex bytes) \<subseteq> set (js ''0123456789abcdef'') \<and>
           (uploadType m = Some (js ''raw'') \<longrightarrow>
              (\<exists>e c rest. editor m = Some e \<and> clientName m = Some c \<and>
                 e = split_at_0 e @ rest \<and> 0x40 \<notin> set (split_at_0 e) \<and>
                 (rest = [] \<or> hd rest = 0x40) \<and>
                 (\<forall>x\<in>set (replace_spaces c). \<not> is_space x) \<and>
                 filePath up =
                   js ''raw_uploads/'' @ split_at_0 e @ js ''/'' @ numberToString ts @
                   js ''_'' @ replace_spaces c @ js ''/'' @ toString (body_fileName b))) \<and>
           (uploadType m \<noteq> Some (js ''raw'') \<longrightarrow>
              (\<exists>p. projectName m = Some p \<and>
                 (\<forall>x\<in>set (replace_spaces p). \<not> is_space x) \<and>
                 filePath up =
                   js ''edited_uploads/review/'' @ numberToString ts @ js ''_'' @
                   replace_spaces p @ js ''/'' @ toString (body_fileName b)))"
proof -
  obtain r1 s1 where a: "authorizeB2 P cfg s = (r1, s1)" by (cases "authorizeB2 P cfg s")
  have rr: "random_reads s1 = random_reads s" using authorizeB2_frame [of P cfg s] a by simp
  from assms obtain b where b: "body req = Some b"
    unfolding handlePrepareUpload_run by (auto split: option.splits)
  from assms b a obtain auth where r1: "r1 = Inr auth"
    unfolding handlePrepareUpload_run by (cases r1) auto
  let ?ts = "now P (clock_reads s1)"
  let ?bytes = "map (random P) [random_reads s ..< random_reads s + 4]"
  from assms b a r1 rr obtain path and data :: upload_url_data where
    p: "planPath ?ts (body_fileName b) (body_metadata b) = Inr path"
    and res: "res = \<lparr>status = 200,
                     res_body = PreparedBody
                       \<lparr>uploadUrl = data_uploadUrl data,
                        authToken = data_authorizationToken data,
                        fileId = numberToString ?ts @ js ''_'' @ toHex ?bytes,
                        filePath = path\<rparr>\<rparr>"
    unfolding handlePrepareUpload_run
    by (auto simp: Let_def split: sum.splits)
  from p obtain m where m: "body_metadata b = Some m"
    by (auto simp: planPath_def split: option.splits)
  have raw: "\<exists>e c rest. editor m = Some e \<and> clientName m = Some c \<and>
                 e = split_at_0 e @ rest \<and> 0x40 \<notin> set (split_at_0 e) \<and>
                 (rest = [] \<or> hd rest = 0x40) \<and>
                 (\<forall>x\<in>set (replace_spaces c). \<not> is_space x) \<and>
                 path =
                   js ''raw_uploads/'' @ split_at_0 e @ js ''/'' @ numberToString ?ts @
                   js ''_'' @ replace_spaces c @ js ''/'' @ toString (body_fileName b)"
    if "uploadType m = Some (js ''raw'')"
  proof -
    from p m that obtain e c where ec: "editor m = Some e" "clientName m = Some c"
      and path: "path = js ''raw_uploads/'' @ split_at_0 e @ js ''/'' @ numberToString ?ts @
                   js ''_'' @ replace_spaces c @ js ''/'' @ toString (body_fileName b)"
      by (auto simp: planPath_def Let_def split: option.splits)
    from split_at_0_prefix [of e] obtain rest where
      "e = split_at_0 e @ rest" "0x40 \<notin> set (split_at_0 e)" "rest = [] \<or> hd rest = 0x40"
      by blast
    with ec path replace_spaces_no_space [of c] show ?thesis by blast
  qed
  have edited: "\<exists>p. projectName m = Some p \<and>
                 (\<forall>x\<in>set (replace_spaces p). \<not> is_space x) \<and>
                 path =
                   js ''edited_uploads/review/'' @ numberToString ?ts @ js ''_'' @
                   replace_spaces p @ js ''/'' @ toString (body_fileName b)"
    if "uploadType m \<noteq> Some (js ''raw'')"
    using p m that replace_spaces_no_space
    by (auto simp: planPath_def Let_def split: option.splits)
  have "length (toHex ?bytes) = 8" by (simp add: length_toHex)
  moreover have "0 \<le> ?ts \<longrightarrow> set (numberToString ?ts) \<subseteq> set (js ''0123456789'')"
    by (simp add: set_numberToString)
  moreover note set_toHex [of ?bytes]
  ultimately show ?thesis
    using b m raw edited by (simp add: res a)
qed

section \<open>Review data and missing fields\<close>

text \<open>
  Claim C8, as the code has it: a complete request on the review path that succeeds has
  drawn the next 16 bytes of the random source; the review identifier is their hexadecimal
  encoding, 32 lowercase hexadecimal characters, and no other bytes have that encoding.
  The request has stored the metadata, the files and a reading of the clock under exactly
  that identifier in \<open>reviewData\<close>, every other key being as it was. A request on the
  review path that fails, by a rejected send or otherwise, leaves \<open>reviewData\<close> as it was.
\<close>

theorem review_recorded:
  assumes "body req = Some b" and "body_metadata b = Some m"
    and "uploadType m \<noteq> Some (js ''raw'')"
  shows "(handleUploadComplete P cfg req s = (Inr res, s') \<longrightarrow>
            (\<exists>fs reviewId.
               body_files b = Some fs \<and>
               reviewId = toHex (map (random P) [random_reads s ..< random_reads s + 16]) \<and>
               random_reads s' = random_reads s + 16 \<and>
               length reviewId = 32 \<and> set reviewId \<subseteq> set (js ''0123456789abcdef'') \<and>
               (\<forall>bytes. toHex bytes = reviewId \<longrightarrow>
                        bytes = map (random P) [random_reads s ..< random_reads s + 16]) \<and>
               reviewData s' =
                 Some ((case reviewData s of None \<Rightarrow> Map.empty | Some d \<Rightarrow> d)
                       (reviewId \<mapsto> \<lparr>entry_metadata = m, entry_files = fs,
                                     entry_timestamp = now P (Suc (clock_reads s))\<rparr>)))) \<and>
         (handleUploadComplete P cfg req s = (Inl e, s') \<longrightarrow>
            reviewData s' = reviewData s \<and>
            (calls s' = calls s \<or> (\<exists>mail. calls s' = calls s @ [(Send mail, False)])))"
proof (intro conjI impI)
  assume run: "handleUploadComplete P cfg req s = (Inr res, s')"
  let ?bytes = "map (random P) [random_reads s ..< random_reads s + 16]"
  from assms run obtain fs where fs: "body_files b = Some fs"
    by (cases "body_files b") (auto simp: handleUploadComplete_run sendReviewEmail_no_files)
  from assms run fs have
    "random_reads s' = random_reads s + 16 \<and>
     reviewData s' =
       Some ((case reviewData s of None \<Rightarrow> Map.empty | Some d \<Rightarrow> d)
             (toHex ?bytes \<mapsto> \<lparr>entry_metadata = m, entry_files = fs,
                               entry_timestamp = now P (Suc (clock_reads s))\<rparr>))"
    by (auto simp: handleUploadComplete_run sendReviewEmail_run Let_def
             split: option.splits)
  moreover have "length (toHex ?bytes) = 32" by (simp add: length_toHex)
  moreover have "\<forall>bytes. toHex bytes = toHex ?bytes \<longrightarrow> bytes = ?bytes"
    using toHex_inj by blast
  moreover note set_toHex [of ?bytes]
  ultimately show "\<exists>fs reviewId.
               body_files b = Some fs \<and>
               reviewId = toHex (map (random P) [random_reads s ..< random_reads s + 16]) \<and>
               random_reads s' = random_reads s + 16 \<and>
               length reviewId = 32 \<and> set reviewId \<subseteq> set (js ''0123456789abcdef'') \<and>
               (\<forall>bytes. toHex bytes = reviewId \<longrightarrow>
                        bytes = map (random P) [random_reads s ..< random_reads s + 16]) \<and>
               reviewData s' =
                 Some ((case reviewData s of None \<Rightarrow> Map.empty | Some d \<Rightarrow> d)
                       (reviewId \<mapsto> \<lparr>entry_metadata = m, entry_files = fs,
                                     entry_timestamp = now P (Suc (clock_reads s))\<rparr>))"
    using fs by blast
next
  assume run: "handleUploadComplete P cfg req s = (Inl e, s')"
  from handleUploadComplete_outcome [of P cfg req s]
  have "reviewData s' = reviewData s \<and>
        (calls s' = calls s \<or> (\<exists>mail. calls s' = calls s @ [(Send mail, False)]))"
    unfolding run by simp
  then show "reviewData s' = reviewData s"
    and "calls s' = calls s \<or> (\<exists>mail. calls s' = calls s @ [(Send mail, False)])"
    by simp_all
qed

lemma path_fields_required: "path_fields_absent m \<Longrightarrow> required_fields_absent m"
  by (auto simp: path_fields_absent_def required_fields_absent_def split: if_splits)

lemma planPath_absent:
  "path_fields_absent m \<Longrightarrow> planPath t name (Some m) = Inl TypeError"
  by (auto simp: planPath_def path_fields_absent_def Let_def split: option.splits if_splits)

lemma planPath_present:
  "\<not> path_fields_absent m \<Longrightarrow> \<exists>path. planPath t name (Some m) = Inr path"
  by (auto simp: planPath_def path_fields_absent_def Let_def split: option.splits if_splits)

text \<open>
  Claim C5, as the code has it: prepare validates nothing. Of the required fields it
  reads \<open>editor\<close> and \<open>clientName\<close> of a raw upload and \<open>projectName\<close> of any other. When
  one of these is absent the request fails with status 500, after the authorization step:
  the outbound calls and the authorization cache are those the authorization step leaves,
  no upload URL is asked for, and the error reported is the \<open>TypeError\<close> of the property
  access, or the error of the authorization when that step fails. When these are present
  the request is answered 200 as soon as the authorization and the upload-URL call
  succeed, whichever other required field is absent.
\<close>

theorem missing_fields_fail:
  assumes "body req = Some b" and "body_metadata b = Some m"
    and "action (bindingData ctx) = Some (js ''prepare'')"
  shows "(path_fields_absent m \<longrightarrow>
            required_fields_absent m \<and>
            (\<exists>e. fst (module_exports P cfg ctx req s) =
                   \<lparr>status = 500, res_body = ErrorBody (MessageOf e)\<rparr> \<and>
                 (case fst (authorizeB2 P cfg s) of
                    Inl e' \<Rightarrow> e = e' | Inr a \<Rightarrow> e = TypeError)) \<and>
            calls (snd (module_exports P cfg ctx req s)) =
              calls (snd (authorizeB2 P cfg s)) \<and>
            b2Auth (snd (module_exports P cfg ctx req s)) =
              b2Auth (snd (authorizeB2 P cfg s)) \<and>
            b2AuthExpiry (snd (module_exports P cfg ctx req s)) =
              b2AuthExpiry (snd (authorizeB2 P cfg s))) \<and>
         (\<not> path_fields_absent m \<and> authorizeB2 P cfg s = (Inr auth, s') \<and>
          upload_url_reply P (length (calls s')) = Inr d \<longrightarrow>
            (\<exists>up. fst (module_exports P cfg ctx req s) =
                    \<lparr>status = 200, res_body = PreparedBody up\<rparr>))"
proof (intro conjI impI)
  assume absent: "path_fields_absent m"
  obtain r1 s1 where a: "authorizeB2 P cfg s = (r1, s1)" by (cases "authorizeB2 P cfg s")
  have p: "planPath t (body_fileName b) (body_metadata b) = Inl TypeError" for t
    using planPath_absent [OF absent] by (simp add: assms(2))
  show "required_fields_absent m" using absent by (rule path_fields_required)
  show "\<exists>e. fst (module_exports P cfg ctx req s) =
                   \<lparr>status = 500, res_body = ErrorBody (MessageOf e)\<rparr> \<and>
                 (case fst (authorizeB2 P cfg s) of
                    Inl e' \<Rightarrow> e = e' | Inr a \<Rightarrow> e = TypeError)"
    unfolding module_exports_prepare [OF assms(3)] handlePrepareUpload_run
    by (cases r1) (simp_all add: assms(1) a p Let_def)
  show "calls (snd (module_exports P cfg ctx req s)) = calls (snd (authorizeB2 P cfg s))"
    unfolding module_exports_prepare [OF assms(3)] handlePrepareUpload_run
    by (cases r1) (simp_all add: assms(1) a p Let_def)
  show "b2Auth (snd (module_exports P cfg ctx req s)) = b2Auth (snd (authorizeB2 P cfg s))"
    unfolding module_exports_prepare [OF assms(3)] handlePrepareUpload_run
    by (cases r1) (simp_all add: assms(1) a p Let_def)
  show "b2AuthExpiry (snd (module_exports P cfg ctx req s)) =
          b2AuthExpiry (snd (authorizeB2 P cfg s))"
    unfolding module_exports_prepare [OF assms(3)] handlePrepareUpload_run
    by (cases r1) (simp_all add: assms(1) a p Let_def)
next
  assume h: "\<not> path_fields_absent m \<and> authorizeB2 P cfg s = (Inr auth, s') \<and>
          upload_url_reply P (length (calls s')) = Inr d"
  then obtain path where
    "planPath (now P (clock_reads s')) (body_fileName b) (body_metadata b) = Inr path"
    using planPath_present [of m "now P (clock_reads s')" "body_fileName b"]
    by (auto simp: assms(2))
  with h show "\<exists>up. fst (module_exports P cfg ctx req s) =
                    \<lparr>status = 200, res_body = PreparedBody up\<rparr>"
    unfolding module_exports_prepare [OF assms(3)] handlePrepareUpload_run
    by (simp add: assms(1) Let_def)
qed

section \<open>The sample complete requests\<close>

lemma raw_metadata_fields:
  "uploadType raw_metadata = Some (js ''raw'')"
  "editor raw_metadata = Some (js ''jane@x.com'')"
  "clientName raw_metadata = Some (js ''Acme Co'')"
  "footageType raw_metadata = Some (js ''Wedding'')"
  "instructions raw_metadata \<noteq> None"
  by (simp_all add: raw_metadata_def)

lemma edited_metadata_fields:
  "uploadType edited_metadata \<noteq> Some (js ''raw'')"
  "projectName edited_metadata = Some (js ''Acme Promo'')"
  by (simp_all add: edited_metadata_def js_def)

lemma sample_config_fields:
  "FROM_EMAIL sample_config = js ''workflow@nuculture.com''"
  "BOSS_EMAIL sample_config = js ''boss@nuculture.com''"
  by (simp_all add: sample_config_def config_of_def or_default_def)

lemma sample_review_id:
  "toHex (map (random sample_platform) [0..<16]) = js ''031425364758697a8b9cadbecfe0f102''"
  by (simp add: sample_platform_def upt_rec toHex_def hexByte_def hexDigit_def js_def)

lemma repeating_review_id:
  "toHex (map (random repeating_platform) [n..<n + 16]) = js ''00000000000000000000000000000000''"
proof -
  have "map (random repeating_platform) xs = replicate (length xs) 0" for xs
    by (induction xs) (simp_all add: repeating_platform_def sample_platform_def)
  then have "map (random repeating_platform) [n..<n + 16] = replicate 16 0" by simp
  also have "replicate 16 (0::8 word) = [0, 0, 0, 0, 0, 0, 0, 0, 0, 0, 0, 0, 0, 0, 0, 0]"
    by (simp add: numeral_eq_Suc)
  finally show ?thesis
    by (simp add: toHex_def hexByte_def hexDigit_def js_def)
qed

lemma sample_complete_raw:
  "\<exists>html. handleUploadComplete sample_platform sample_config (complete_request raw_metadata)
             initial_state =
     (Inr \<lparr>status = 200, res_body = SuccessBody True (js ''Notifications sent'')\<rparr>,
      initial_state\<lparr>calls :=
        [(Send \<lparr>msg_to = js ''jane@x.com'', msg_from = js ''workflow@nuculture.com'',
                msg_subject = js ''New Footage: Acme Co - Wedding'',
                msg_html = html\<rparr>, True)]\<rparr>)"
proof -
  obtain html where h:
    "editorEmailHtml sample_config (split_at_0 (js ''jane@x.com'')) raw_metadata
       (downloadLinks sample_config sample_files) = Inr html"
    using editorEmailHtml_ok raw_metadata_fields(5) by blast
  have subject: "js ''New Footage: '' @ toString (Some (js ''Acme Co'')) @ js '' - '' @
                 toString (Some (js ''Wedding'')) = js ''New Footage: Acme Co - Wedding''"
    by (simp add: toString_def js_def)
  have send: "send_reply sample_platform k = None" for k
    by (simp add: sample_platform_def)
  have "calls initial_state = []" by (simp add: initial_state_def)
  then show ?thesis
    by (intro exI [of _ html])
       (simp add: handleUploadComplete_run sendEditorEmail_run complete_request_def complete_body_def
          raw_metadata_fields h sample_config_fields subject send Let_def)
qed

lemma sample_complete_edited:
  "\<exists>html. handleUploadComplete sample_platform sample_config (complete_request edited_metadata)
             initial_state =
     (Inr \<lparr>status = 200, res_body = SuccessBody True (js ''Notifications sent'')\<rparr>,
      \<lparr>b2Auth = None, b2AuthExpiry = 0,
       reviewData = Some [js ''031425364758697a8b9cadbecfe0f102'' \<mapsto>
                          \<lparr>entry_metadata = edited_metadata, entry_files = sample_files,
                           entry_timestamp = 1700000000001\<rparr>],
       clock_reads = 2, random_reads = 16,
       calls =
        [(Send \<lparr>msg_to = js ''boss@nuculture.com'', msg_from = js ''workflow@nuculture.com'',
                msg_subject = js ''Review Required: Acme Promo'',
                msg_html = html\<rparr>, True)]\<rparr>)"
proof -
  have subject: "js ''Review Required: '' @ toString (Some (js ''Acme Promo'')) =
                 js ''Review Required: Acme Promo''"
    by (simp add: toString_def js_def)
  have P: "send_reply sample_platform k = None"
    "encodeURIComponent sample_platform x = Some x"
    "now sample_platform k = 1700000000000 + int k" for k x
    by (simp_all add: sample_platform_def)
  have s0: "calls initial_state = []" "random_reads initial_state = 0"
    "clock_reads initial_state = 0" "reviewData initial_state = None"
    by (simp_all add: initial_state_def)
  have id: "toHex (map (random sample_platform) [0..<16]) =
            js ''031425364758697a8b9cadbecfe0f102''" by (rule sample_review_id)
  show ?thesis
    unfolding handleUploadComplete_run
    apply (simp add: complete_request_def complete_body_def edited_metadata_fields sendReviewEmail_run
             Let_def P s0 id sample_config_fields subject del: upt_Suc)
    apply (simp add: initial_state_def)
    done
qed

lemma rejected_review:
  "fst (handleUploadComplete rejecting_platform sample_config (complete_request edited_metadata)
          initial_state) = Inl (UpstreamError (js ''Forbidden'')) \<and>
   reviewData (snd (handleUploadComplete rejecting_platform sample_config
                      (complete_request edited_metadata) initial_state)) = None"
proof -
  have P: "send_reply rejecting_platform k = Some (UpstreamError (js ''Forbidden''))"
    "encodeURIComponent rejecting_platform x = Some x" for k x
    by (simp_all add: rejecting_platform_def sample_platform_def)
  show ?thesis
    unfolding handleUploadComplete_run
    by (simp add: complete_request_def complete_body_def edited_metadata_fields sendReviewEmail_run
          Let_def P initial_state_def del: upt_Suc)
qed

lemma repeated_review:
  "fst (handleUploadComplete repeating_platform sample_config (complete_request edited_metadata)
          s) = Inr \<lparr>status = 200, res_body = SuccessBody True (js ''Notifications sent'')\<rparr> \<and>
   clock_reads (snd (handleUploadComplete repeating_platform sample_config
                       (complete_request edited_metadata) s)) = Suc (Suc (clock_reads s)) \<and>
   reviewData (snd (handleUploadComplete repeating_platform sample_config
                      (complete_request edited_metadata) s)) =
     Some ((case reviewData s of None \<Rightarrow> Map.empty | Some d \<Rightarrow> d)
           (js ''00000000000000000000000000000000'' \<mapsto>
              \<lparr>entry_metadata = edited_metadata, entry_files = sample_files,
               entry_timestamp = 1700000000000 + int (Suc (clock_reads s))\<rparr>))"
proof -
  have P: "send_reply repeating_platform k = None"
    "encodeURIComponent repeating_platform x = Some x"
    "now repeating_platform k = 1700000000000 + int k" for k x
    by (simp_all add: repeating_platform_def sample_platform_def)
  show ?thesis
    unfolding handleUploadComplete_run
    by (simp add: complete_request_def complete_body_def edited_metadata_fields sendReviewEmail_run
          Let_def P repeating_review_id del: upt_Suc)
qed

text \<open>
  A review request whose email is rejected records nothing. And the code does not compare
  a new identifier with the stored ones: with a source of random bytes that repeats
  itself, two review requests that both succeed leave one entry, the second one, under the
  one identifier.
\<close>

theorem review_not_recorded_or_reused:
  "fst (handleUploadComplete rejecting_platform sample_config (complete_request edited_metadata)
          initial_state) = Inl (UpstreamError (js ''Forbidden'')) \<and>
   reviewData (snd (handleUploadComplete rejecting_platform sample_config
                      (complete_request edited_metadata) initial_state)) = None \<and>
   fst (handleUploadComplete repeating_platform sample_config (complete_request edited_metadata)
          initial_state) =
     Inr \<lparr>status = 200, res_body = SuccessBody True (js ''Notifications sent'')\<rparr> \<and>
   fst (handleUploadComplete repeating_platform sample_config (complete_request edited_metadata)
          (snd (handleUploadComplete repeating_platform sample_config
                  (complete_request edited_metadata) initial_state))) =
     Inr \<lparr>status = 200, res_body = SuccessBody True (js ''Notifications sent'')\<rparr> \<and>
   reviewData
     (snd (handleUploadComplete repeating_platform sample_config (complete_request edited_metadata)
          (snd (handleUploadComplete repeating_platform sample_config
                  (complete_request edited_metadata) initial_state)))) =
     Some [js ''00000000000000000000000000000000'' \<mapsto>
             \<lparr>entry_metadata = edited_metadata, entry_files = sample_files,
              entry_timestamp = 1700000000003\<rparr>]"
proof -
  have "reviewData initial_state = None" "clock_reads initial_state = 0"
    by (simp_all add: initial_state_def)
  then show ?thesis
    by (simp add: rejected_review repeated_review)
qed

text \<open>
  In the sample world, a raw upload without \<open>editor\<close> is answered with the 500 of a
  \<open>TypeError\<close>, and by then the authorize call has been made and its result cached. A
  raw upload without shoot date, footage type and instructions, three fields the
  specification requires, is answered 200.
\<close>

theorem missing_fields_not_validated:
  "module_exports sample_platform sample_config (call_with (Some (js ''prepare'')))
     (prepare_request (raw_metadata\<lparr>editor := None\<rparr>)) initial_state =
     (\<lparr>status = 500, res_body = ErrorBody (MessageOf TypeError)\<rparr>,
      \<lparr>b2Auth = Some sample_authorization,
       b2AuthExpiry = 1700082800000, reviewData = None, clock_reads = 2, random_reads = 4,
       calls = [(Authorize (js ''https://api.backblazeb2.com/b2api/v2/b2_authorize_account'')
                           (js ''Basic key:secret''), True)]\<rparr>) \<and>
   required_fields_absent bare_raw_metadata \<and>
   fst (module_exports sample_platform sample_config (call_with (Some (js ''prepare'')))
          (prepare_request bare_raw_metadata) initial_state) =
     \<lparr>status = 200,
      res_body = PreparedBody
        \<lparr>uploadUrl = Some (js ''https://pod.backblazeb2.com/u''),
         authToken = Some (js ''uploadtoken''),
         fileId = js ''1700000000001_03142536'',
         filePath = js ''raw_uploads/jane/1700000000001_Acme_Co/clip.mp4''\<rparr>\<rparr>"
proof -
  have a: "action (bindingData (call_with (Some (js ''prepare'')))) = Some (js ''prepare'')"
    by (simp add: call_with_def)
  have p: "planPath t (Some (js ''clip.mp4'')) (Some (raw_metadata\<lparr>editor := None\<rparr>)) =
           Inl TypeError" for t
    by (simp add: planPath_def raw_metadata_def)
  have failed: "module_exports sample_platform sample_config
     (call_with (Some (js ''prepare'')))
     (prepare_request (raw_metadata\<lparr>editor := None\<rparr>)) initial_state =
     (\<lparr>status = 500, res_body = ErrorBody (MessageOf TypeError)\<rparr>,
      \<lparr>b2Auth = Some sample_authorization,
       b2AuthExpiry = 1700082800000, reviewData = None, clock_reads = 2, random_reads = 4,
       calls = [(Authorize (js ''https://api.backblazeb2.com/b2api/v2/b2_authorize_account'')
                           (js ''Basic key:secret''), True)]\<rparr>)"
    unfolding module_exports_prepare [OF a] handlePrepareUpload_run
    by (simp add: prepare_request_def prepare_body_def sample_authorize p Let_def
          authorized_state_def)
  have absent: "required_fields_absent bare_raw_metadata"
    by (simp add: required_fields_absent_def bare_raw_metadata_def raw_metadata_def)
  have accepted: "fst (module_exports sample_platform sample_config
          (call_with (Some (js ''prepare''))) (prepare_request bare_raw_metadata)
          initial_state) =
     \<lparr>status = 200,
      res_body = PreparedBody
        \<lparr>uploadUrl = Some (js ''https://pod.backblazeb2.com/u''),
         authToken = Some (js ''uploadtoken''),
         fileId = js ''1700000000001_03142536'',
         filePath = js ''raw_uploads/jane/1700000000001_Acme_Co/clip.mp4''\<rparr>\<rparr>"
    unfolding module_exports_prepare [OF a] handlePrepareUpload_run
    apply (simp add: prepare_request_def prepare_body_def sample_authorize)
    apply (simp add: sample_defs bare_raw_metadata_def Let_def planPath_def string_eval upt_rec)
    done
  from failed absent accepted show ?thesis by (intro conjI)
qed

section \<open>The statements above on the sample requests\<close>

theorem notification_envelope_witness:
  "body (complete_request raw_metadata) = Some (complete_body raw_metadata) \<and>
   body_metadata (complete_body raw_metadata) = Some raw_metadata \<and>
   uploadType raw_metadata = Some (js ''raw'') \<and>
   (\<exists>html. calls (snd (handleUploadComplete sample_platform sample_config
                          (complete_request raw_metadata) initial_state)) =
      [(Send \<lparr>msg_to = js ''jane@x.com'', msg_from = FROM_EMAIL sample_config,
              msg_subject = js ''New Footage: '' @ toString (clientName raw_metadata) @
                            js '' - '' @ toString (footageType raw_metadata),
              msg_html = html\<rparr>, True)]) \<and>
   body (complete_request edited_metadata) = Some (complete_body edited_metadata) \<and>
   body_metadata (complete_body edited_metadata) = Some edited_metadata \<and>
   uploadType edited_metadata \<noteq> Some (js ''raw'') \<and>
   (\<exists>html. calls (snd (handleUploadComplete sample_platform sample_config
                          (complete_request edited_metadata) initial_state)) =
      [(Send \<lparr>msg_to = BOSS_EMAIL sample_config, msg_from = FROM_EMAIL sample_config,
              msg_subject = js ''Review Required: '' @ toString (projectName edited_metadata),
              msg_html = html\<rparr>, True)])"
proof -
  have r1: "body (complete_request raw_metadata) = Some (complete_body raw_metadata)"
    and e1: "body (complete_request edited_metadata) = Some (complete_body edited_metadata)"
    by (simp_all add: complete_request_def)
  have r2: "body_metadata (complete_body raw_metadata) = Some raw_metadata"
    and e2: "body_metadata (complete_body edited_metadata) = Some edited_metadata"
    by (simp_all add: complete_body_def)
  have none: "calls initial_state = []" by (simp add: initial_state_def)
  have rok: "\<exists>res. fst (handleUploadComplete sample_platform sample_config
                          (complete_request raw_metadata) initial_state) = Inr res"
    using sample_complete_raw by auto
  have eok: "\<exists>res. fst (handleUploadComplete sample_platform sample_config
                          (complete_request edited_metadata) initial_state) = Inr res"
    using sample_complete_edited by auto
  note r = notification_envelope [OF r1 r2, where P = sample_platform and cfg = sample_config
      and s = initial_state, THEN conjunct1, THEN mp, OF raw_metadata_fields(1)]
  note e = notification_envelope [OF e1 e2, where P = sample_platform and cfg = sample_config
      and s = initial_state, THEN conjunct2, THEN mp, OF edited_metadata_fields(1)]
  from r rok have "\<exists>html. calls (snd (handleUploadComplete sample_platform sample_config
                          (complete_request raw_metadata) initial_state)) =
      [(Send \<lparr>msg_to = js ''jane@x.com'', msg_from = FROM_EMAIL sample_config,
              msg_subject = js ''New Footage: '' @ toString (clientName raw_metadata) @
                            js '' - '' @ toString (footageType raw_metadata),
              msg_html = html\<rparr>, True)]"
    by (auto simp: raw_metadata_fields(2) none)
  moreover from e eok have "\<exists>html. calls (snd (handleUploadComplete sample_platform
                          sample_config (complete_request edited_metadata) initial_state)) =
      [(Send \<lparr>msg_to = BOSS_EMAIL sample_config, msg_from = FROM_EMAIL sample_config,
              msg_subject = js ''Review Required: '' @ toString (projectName edited_metadata),
              msg_html = html\<rparr>, True)]"
    by (auto simp: none)
  ultimately show ?thesis
    using r1 r2 e1 e2 raw_metadata_fields(1) edited_metadata_fields(1) by blast
qed

theorem complete_atomic_witness:
  "action (bindingData (call_with (Some (js ''complete'')))) = Some (js ''complete'') \<and>
   fst (module_exports sample_platform sample_config (call_with (Some (js ''complete'')))
          (complete_request edited_metadata) initial_state) =
     \<lparr>status = 200, res_body = SuccessBody True (js ''Notifications sent'')\<rparr> \<and>
   (\<exists>mail. calls (snd (module_exports sample_platform sample_config
                          (call_with (Some (js ''complete'')))
                          (complete_request edited_metadata) initial_state)) =
             calls initial_state @ [(Send mail, True)]) \<and>
   fst (module_exports rejecting_platform sample_config (call_with (Some (js ''complete'')))
          (complete_request edited_metadata) initial_state) =
     \<lparr>status = 500, res_body = ErrorBody (MessageOf (UpstreamError (js ''Forbidden'')))\<rparr> \<and>
   reviewData (snd (module_exports rejecting_platform sample_config
                      (call_with (Some (js ''complete'')))
                      (complete_request edited_metadata) initial_state)) =
     reviewData initial_state"
proof -
  have a: "action (bindingData (call_with (Some (js ''complete'')))) = Some (js ''complete'')"
    by (simp add: call_with_def)
  have sent: "fst (module_exports sample_platform sample_config
                     (call_with (Some (js ''complete'')))
                     (complete_request edited_metadata) initial_state) =
     \<lparr>status = 200, res_body = SuccessBody True (js ''Notifications sent'')\<rparr>"
    using sample_complete_edited by (auto simp: module_exports_complete [OF a])
  have failed: "fst (module_exports rejecting_platform sample_config
                       (call_with (Some (js ''complete'')))
                       (complete_request edited_metadata) initial_state) =
     \<lparr>status = 500, res_body = ErrorBody (MessageOf (UpstreamError (js ''Forbidden'')))\<rparr>"
    using rejected_review
    by (cases "handleUploadComplete rejecting_platform sample_config
                 (complete_request edited_metadata) initial_state")
       (auto simp: module_exports_complete [OF a])
  note ok = complete_atomic [OF a, where P = sample_platform and cfg = sample_config
      and req = "complete_request edited_metadata" and s = initial_state]
  note rejected = complete_atomic [OF a, where P = rejecting_platform and cfg = sample_config
      and req = "complete_request edited_metadata" and s = initial_state]
  from ok sent have "\<exists>mail. calls (snd (module_exports sample_platform sample_config
                          (call_with (Some (js ''complete'')))
                          (complete_request edited_metadata) initial_state)) =
             calls initial_state @ [(Send mail, True)]"
    by auto
  moreover from rejected failed
  have "reviewData (snd (module_exports rejecting_platform sample_config
                      (call_with (Some (js ''complete'')))
                      (complete_request edited_metadata) initial_state)) =
     reviewData initial_state"
    by auto
  ultimately show ?thesis using a sent failed by blast
qed

theorem missing_fields_fail_witness:
  "body (prepare_request (raw_metadata\<lparr>editor := None\<rparr>)) =
     Some (prepare_body (raw_metadata\<lparr>editor := None\<rparr>)) \<and>
   body_metadata (prepare_body (raw_metadata\<lparr>editor := None\<rparr>)) =
     Some (raw_metadata\<lparr>editor := None\<rparr>) \<and>
   action (bindingData (call_with (Some (js ''prepare'')))) = Some (js ''prepare'') \<and>
   path_fields_absent (raw_metadata\<lparr>editor := None\<rparr>) \<and>
   fst (module_exports sample_platform sample_config (call_with (Some (js ''prepare'')))
          (prepare_request (raw_metadata\<lparr>editor := None\<rparr>)) initial_state) =
     \<lparr>status = 500, res_body = ErrorBody (MessageOf TypeError)\<rparr> \<and>
   calls (snd (module_exports sample_platform sample_config
                 (call_with (Some (js ''prepare'')))
                 (prepare_request (raw_metadata\<lparr>editor := None\<rparr>)) initial_state)) =
     calls authorized_state \<and>
   body (prepare_request bare_raw_metadata) = Some (prepare_body bare_raw_metadata) \<and>
   body_metadata (prepare_body bare_raw_metadata) = Some bare_raw_metadata \<and>
   required_fields_absent bare_raw_metadata \<and>
   \<not> path_fields_absent bare_raw_metadata \<and>
   authorizeB2 sample_platform sample_config initial_state =
     (Inr sample_authorization, authorized_state) \<and>
   (\<exists>d. upload_url_reply sample_platform (length (calls authorized_state)) = Inr d) \<and>
   (\<exists>up. fst (module_exports sample_platform sample_config
                   (call_with (Some (js ''prepare''))) (prepare_request bare_raw_metadata)
                   initial_state) =
          \<lparr>status = 200, res_body = PreparedBody up\<rparr>)"
proof -
  have h1: "body (prepare_request md) = Some (prepare_body md)"
    and h2: "body_metadata (prepare_body md) = Some md" for md
    by (simp_all add: prepare_request_def prepare_body_def)
  have h3: "action (bindingData (call_with (Some (js ''prepare'')))) = Some (js ''prepare'')"
    by (simp add: call_with_def)
  have absent: "path_fields_absent (raw_metadata\<lparr>editor := None\<rparr>)"
    by (simp add: path_fields_absent_def raw_metadata_def)
  have required: "required_fields_absent bare_raw_metadata"
    by (simp add: required_fields_absent_def bare_raw_metadata_def raw_metadata_def)
  have present: "\<not> path_fields_absent bare_raw_metadata"
    by (simp add: path_fields_absent_def bare_raw_metadata_def raw_metadata_def)
  have reply: "upload_url_reply sample_platform (length (calls authorized_state)) =
      Inr \<lparr>data_uploadUrl = Some (js ''https://pod.backblazeb2.com/u''),
           data_authorizationToken = Some (js ''uploadtoken'')\<rparr>"
    by (simp add: sample_platform_def)
  note failing = missing_fields_fail [OF h1 [of "raw_metadata\<lparr>editor := None\<rparr>"]
      h2 [of "raw_metadata\<lparr>editor := None\<rparr>"] h3, where P = sample_platform
      and cfg = sample_config and s = initial_state, THEN conjunct1, THEN mp, OF absent]
  note accepted = missing_fields_fail [OF h1 [of bare_raw_metadata]
      h2 [of bare_raw_metadata] h3, where P = sample_platform
      and cfg = sample_config and s = initial_state
      and auth = sample_authorization and s' = authorized_state, THEN conjunct2, THEN mp,
      OF conjI [OF present conjI [OF sample_authorize reply]]]
  from failing have
    "fst (module_exports sample_platform sample_config (call_with (Some (js ''prepare'')))
          (prepare_request (raw_metadata\<lparr>editor := None\<rparr>)) initial_state) =
     \<lparr>status = 500, res_body = ErrorBody (MessageOf TypeError)\<rparr> \<and>
     calls (snd (module_exports sample_platform sample_config
                 (call_with (Some (js ''prepare'')))
                 (prepare_request (raw_metadata\<lparr>editor := None\<rparr>)) initial_state)) =
     calls authorized_state"
    by (auto simp: sample_authorize)
  with accepted h1 h2 h3 absent required present sample_authorize reply
  show ?thesis by blast
qed

theorem prepared_upload_paths_witness:
  "\<exists>res s' up.
     handlePrepareUpload sample_platform sample_config (prepare_request raw_metadata)
       initial_state = (Inr res, s') \<and>
     res_body res = PreparedBody up \<and>
     fileId up = js ''1700000000001_03142536'' \<and>
     filePath up = js ''raw_uploads/jane/1700000000001_Acme_Co/clip.mp4''"
proof -
  from sample_prepare_raw obtain res s' where
    h: "handlePrepareUpload sample_platform sample_config (prepare_request raw_metadata)
          initial_state = (Inr res, s')"
    by blast
  have ts: "now sample_platform
              (clock_reads (snd (authorizeB2 sample_platform sample_config initial_state))) =
            1700000000001"
    unfolding sample_authorize by (simp add: authorized_state_def sample_platform_def)
  have bytes: "toHex (map (random sample_platform)
                 [random_reads initial_state..<random_reads initial_state + 4]) =
               js ''03142536''"
    by (simp add: initial_state_def sample_platform_def upt_rec toHex_def hexByte_def
          hexDigit_def js_def)
  have name: "numberToString 1700000000001 = js ''1700000000001''"
    by (simp add: numberToString_def digits.simps js_def)
  have local: "split_at_0 (js ''jane@x.com'') = js ''jane''"
    by (simp add: split_at_0_def js_def)
  have client: "replace_spaces (js ''Acme Co'') = js ''Acme_Co''"
    by (simp add: js_def is_space_def)
  have cat: "js ''1700000000001'' @ js ''_'' @ js ''03142536'' = js ''1700000000001_03142536''"
    "js ''raw_uploads/'' @ js ''jane'' @ js ''/'' @ js ''1700000000001'' @ js ''_'' @
       js ''Acme_Co'' @ js ''/'' @ toString (Some (js ''clip.mp4'')) =
     js ''raw_uploads/jane/1700000000001_Acme_Co/clip.mp4''"
    by (simp_all add: js_def toString_def)
  from prepared_upload_paths [OF h] obtain b m up ts bytes where
    b: "body (prepare_request raw_metadata) = Some b" and m: "body_metadata b = Some m"
    and up: "res_body res = PreparedBody up"
    and ts': "ts = now sample_platform
                (clock_reads (snd (authorizeB2 sample_platform sample_config initial_state)))"
    and bytes': "bytes = map (random sample_platform)
                   [random_reads initial_state..<random_reads initial_state + 4]"
    and id: "fileId up = numberToString ts @ js ''_'' @ toHex bytes"
    and path: "uploadType m = Some (js ''raw'') \<longrightarrow>
       (\<exists>e c rest. editor m = Some e \<and> clientName m = Some c \<and>
          e = split_at_0 e @ rest \<and> 0x40 \<notin> set (split_at_0 e) \<and>
          (rest = [] \<or> hd rest = 0x40) \<and>
          (\<forall>x\<in>set (replace_spaces c). \<not> is_space x) \<and>
          filePath up = js ''raw_uploads/'' @ split_at_0 e @ js ''/'' @
            numberToString ts @ js ''_'' @ replace_spaces c @ js ''/'' @
            toString (body_fileName b))"
    by blast
  have ts1: "ts = 1700000000001" using ts' ts by simp
  have bytes1: "toHex bytes = js ''03142536''" using bytes' bytes by simp
  from b have b': "b = prepare_body raw_metadata" by (simp add: prepare_request_def)
  with m have m': "m = raw_metadata" by (simp add: prepare_body_def)
  from path have "filePath up = js ''raw_uploads/jane/1700000000001_Acme_Co/clip.mp4''"
    unfolding b' m' ts1
    by (auto simp: raw_metadata_fields prepare_body_def local client name cat)
  moreover from id have "fileId up = js ''1700000000001_03142536''"
    unfolding ts1 bytes1 by (simp only: name cat)
  ultimately show ?thesis using h up by blast
qed

theorem review_recorded_witness:
  "body (complete_request edited_metadata) = Some (complete_body edited_metadata) \<and>
   body_metadata (complete_body edited_metadata) = Some edited_metadata \<and>
   uploadType edited_metadata \<noteq> Some (js ''raw'') \<and>
   (\<exists>res s'.
      handleUploadComplete sample_platform sample_config (complete_request edited_metadata)
        initial_state = (Inr res, s') \<and>
      reviewData s' =
        Some [js ''031425364758697a8b9cadbecfe0f102'' \<mapsto>
                \<lparr>entry_metadata = edited_metadata, entry_files = sample_files,
                 entry_timestamp = now sample_platform (Suc (clock_reads initial_state))\<rparr>]) \<and>
   (\<exists>e s'.
      handleUploadComplete rejecting_platform sample_config (complete_request edited_metadata)
        initial_state = (Inl e, s') \<and>
      reviewData s' = reviewData initial_state)"
proof -
  have h1: "body (complete_request edited_metadata) = Some (complete_body edited_metadata)"
    by (simp add: complete_request_def)
  have h2: "body_metadata (complete_body edited_metadata) = Some edited_metadata"
    by (simp add: complete_body_def)
  have h3: "uploadType edited_metadata \<noteq> Some (js ''raw'')"
    by (rule edited_metadata_fields(1))
  from sample_complete_edited obtain res s' where
    h4: "handleUploadComplete sample_platform sample_config (complete_request edited_metadata)
           initial_state = (Inr res, s')"
    by blast
  obtain e t where
    h5: "handleUploadComplete rejecting_platform sample_config
           (complete_request edited_metadata) initial_state = (Inl e, t)"
    using rejected_review
    by (cases "handleUploadComplete rejecting_platform sample_config
                 (complete_request edited_metadata) initial_state") auto
  have s0: "random_reads initial_state = 0" "reviewData initial_state = None"
    by (simp_all add: initial_state_def)
  from review_recorded [OF h1 h2 h3, where P = sample_platform and cfg = sample_config
      and s = initial_state and res = res and s' = s', THEN conjunct1, THEN mp, OF h4]
  have recorded: "reviewData s' =
        Some [js ''031425364758697a8b9cadbecfe0f102'' \<mapsto>
                \<lparr>entry_metadata = edited_metadata, entry_files = sample_files,
                 entry_timestamp = now sample_platform (Suc (clock_reads initial_state))\<rparr>]"
    unfolding s0 by (auto simp: sample_review_id complete_body_def simp del: upt_Suc)
  from review_recorded [OF h1 h2 h3, where P = rejecting_platform and cfg = sample_config
      and s = initial_state and e = e and s' = t, THEN conjunct2, THEN mp, OF h5]
  have kept: "reviewData t = reviewData initial_state" by simp
  from h1 h2 h3 h4 h5 recorded kept show ?thesis by blast
qed

theorem invalid_action_400_witness:
  "action (bindingData (call_with None)) \<noteq> Some (js ''prepare'') \<and>
   action (bindingData (call_with None)) \<noteq> Some (js ''complete'') \<and>
   module_exports sample_platform sample_config (call_with None)
     (prepare_request raw_metadata) initial_state =
     (\<lparr>status = 400, res_body = ErrorBody (Text (js ''Invalid action''))\<rparr>, initial_state) \<and>
   action (bindingData (call_with (Some (js ''delete'')))) \<noteq> Some (js ''prepare'') \<and>
   action (bindingData (call_with (Some (js ''delete'')))) \<noteq> Some (js ''complete'') \<and>
   module_exports sample_platform sample_config (call_with (Some (js ''delete'')))
     (complete_request edited_metadata) initial_state =
     (\<lparr>status = 400, res_body = ErrorBody (Text (js ''Invalid action''))\<rparr>, initial_state)"
proof -
  have a1: "action (bindingData (call_with None)) \<noteq> Some (js ''prepare'')"
    and a2: "action (bindingData (call_with None)) \<noteq> Some (js ''complete'')"
    by (simp_all add: call_with_def)
  have d1: "action (bindingData (call_with (Some (js ''delete'')))) \<noteq> Some (js ''prepare'')"
    and d2: "action (bindingData (call_with (Some (js ''delete'')))) \<noteq> Some (js ''complete'')"
    by (simp_all add: call_with_def js_def)
  note absent = invalid_action_400 [OF a1 a2, where P = sample_platform
      and cfg = sample_config and req = "prepare_request raw_metadata" and s = initial_state]
  note other = invalid_action_400 [OF d1 d2, where P = sample_platform
      and cfg = sample_config and req = "complete_request edited_metadata"
      and s = initial_state]
  show ?thesis
    by (rule conjI [OF a1 conjI [OF a2 conjI [OF absent conjI [OF d1 conjI [OF d2 other]]]]])
qed

theorem upload_type_dispatch_witness:
  "uploadType raw_metadata = Some (js ''raw'') \<and>
   handleUploadComplete sample_platform sample_config (complete_request raw_metadata) =
     and_then (sendEditorEmail sample_platform sample_config (Some raw_metadata)
                 (body_files (complete_body raw_metadata)))
       (\<lambda>_. return \<lparr>status = 200,
                      res_body = SuccessBody True (js ''Notifications sent'')\<rparr>) \<and>
   uploadType edited_metadata \<noteq> Some (js ''raw'') \<and>
   handleUploadComplete sample_platform sample_config (complete_request edited_metadata) =
     and_then (sendReviewEmail sample_platform sample_config (Some edited_metadata)
                 (body_files (complete_body edited_metadata)))
       (\<lambda>_. return \<lparr>status = 200,
                      res_body = SuccessBody True (js ''Notifications sent'')\<rparr>) \<and>
   uploadType (raw_metadata\<lparr>uploadType := None\<rparr>) \<noteq> Some (js ''raw'') \<and>
   handleUploadComplete sample_platform sample_config
       (complete_request (raw_metadata\<lparr>uploadType := None\<rparr>)) =
     and_then (sendReviewEmail sample_platform sample_config
                 (Some (raw_metadata\<lparr>uploadType := None\<rparr>))
                 (body_files (complete_body (raw_metadata\<lparr>uploadType := None\<rparr>))))
       (\<lambda>_. return \<lparr>status = 200,
                      res_body = SuccessBody True (js ''Notifications sent'')\<rparr>)"
proof -
  have b: "body (complete_request md) = Some (complete_body md)"
    and m: "body_metadata (complete_body md) = Some md" for md
    by (simp_all add: complete_request_def complete_body_def)
  have absent: "uploadType (raw_metadata\<lparr>uploadType := None\<rparr>) \<noteq> Some (js ''raw'')"
    by simp
  note r = upload_type_dispatch [OF b m, where P = sample_platform and cfg = sample_config
      and m = raw_metadata]
  note e = upload_type_dispatch [OF b m, where P = sample_platform and cfg = sample_config
      and m = edited_metadata]
  note u = upload_type_dispatch [OF b m, where P = sample_platform and cfg = sample_config
      and m = "raw_metadata\<lparr>uploadType := None\<rparr>"]
  from r e u raw_metadata_fields(1) edited_metadata_fields(1) absent
  show ?thesis by blast
qed

theorem authorizeB2_cache_witness:
  "\<not> (b2Auth initial_state \<noteq> None \<and>
      now sample_platform (clock_reads initial_state) < b2AuthExpiry initial_state) \<and>
   authorize_reply sample_platform (length (calls initial_state)) = Inr sample_authorization \<and>
   fst (authorizeB2 sample_platform sample_config initial_state) = Inr sample_authorization \<and>
   b2Auth (snd (authorizeB2 sample_platform sample_config initial_state)) =
     Some sample_authorization \<and>
   authorizeB2 sample_platform sample_config initial_state =
     (Inr sample_authorization, authorized_state) \<and>
   b2Auth authorized_state = Some sample_authorization \<and>
   now sample_platform (clock_reads authorized_state) < b2AuthExpiry authorized_state \<and>
   fst (authorizeB2 sample_platform sample_config authorized_state) =
     Inr sample_authorization \<and>
   calls (snd (authorizeB2 sample_platform sample_config authorized_state)) =
     calls authorized_state"
proof -
  have miss: "\<not> (b2Auth initial_state \<noteq> None \<and>
      now sample_platform (clock_reads initial_state) < b2AuthExpiry initial_state)"
    by (simp add: initial_state_def)
  have reply: "authorize_reply sample_platform (length (calls initial_state)) =
      Inr sample_authorization"
    by (simp add: sample_platform_def)
  have cached: "b2Auth authorized_state = Some sample_authorization"
    by (simp add: authorized_state_def)
  have valid: "now sample_platform (clock_reads authorized_state) <
      b2AuthExpiry authorized_state"
    by (simp add: authorized_state_def sample_platform_def)
  note first = authorizeB2_cache [where s = initial_state and P = sample_platform
      and cfg = sample_config and d = sample_authorization and a' = sample_authorization
      and s' = authorized_state and a = sample_authorization]
  note again = authorizeB2_cache [where s = authorized_state and P = sample_platform
      and cfg = sample_config and a = sample_authorization and d = sample_authorization
      and a' = sample_authorization and s' = authorized_state]
  from first again miss reply cached valid sample_authorize
  show ?thesis by blast
qed

theorem frame_conditions_witness:
  "action (bindingData (call_with (Some (js ''complete'')))) = Some (js ''complete'') \<and>
   body (complete_request raw_metadata) = Some (complete_body raw_metadata) \<and>
   body_metadata (complete_body raw_metadata) = Some raw_metadata \<and>
   uploadType raw_metadata = Some (js ''raw'') \<and>
   b2Auth (snd (module_exports sample_platform sample_config
                  (call_with (Some (js ''complete''))) (complete_request raw_metadata)
                  authorized_state)) = b2Auth authorized_state \<and>
   b2AuthExpiry (snd (module_exports sample_platform sample_config
                  (call_with (Some (js ''complete''))) (complete_request raw_metadata)
                  authorized_state)) = b2AuthExpiry authorized_state \<and>
   reviewData (snd (module_exports sample_platform sample_config
                  (call_with (Some (js ''complete''))) (complete_request raw_metadata)
                  authorized_state)) = reviewData authorized_state \<and>
   action (bindingData (call_with (Some (js ''prepare'')))) = Some (js ''prepare'') \<and>
   reviewData (snd (module_exports sample_platform sample_config
                  (call_with (Some (js ''prepare''))) (prepare_request raw_metadata)
                  initial_state)) = reviewData initial_state \<and>
   b2Auth (snd (module_exports sample_platform sample_config
                  (call_with (Some (js ''prepare''))) (prepare_request raw_metadata)
                  initial_state)) \<noteq> b2Auth initial_state \<and>
   reviewData (snd (module_exports sample_platform sample_config
                  (call_with (Some (js ''complete''))) (complete_request edited_metadata)
                  initial_state)) \<noteq> reviewData initial_state \<and>
   (\<exists>b m. body (complete_request edited_metadata) = Some b \<and> body_metadata b = Some m \<and>
          uploadType m \<noteq> Some (js ''raw''))"
proof -
  have c: "action (bindingData (call_with (Some (js ''complete'')))) = Some (js ''complete'')"
    and p: "action (bindingData (call_with (Some (js ''prepare'')))) = Some (js ''prepare'')"
    by (simp_all add: call_with_def)
  have b: "body (complete_request raw_metadata) = Some (complete_body raw_metadata)"
    and m: "body_metadata (complete_body raw_metadata) = Some raw_metadata"
    by (simp_all add: complete_request_def complete_body_def)
  have auth: "b2Auth (snd (module_exports sample_platform sample_config
                  (call_with (Some (js ''prepare''))) (prepare_request raw_metadata)
                  initial_state)) \<noteq> b2Auth initial_state"
    unfolding module_exports_prepare [OF p] sample_prepare_raw
    by (simp add: initial_state_def)
  have review: "reviewData (snd (module_exports sample_platform sample_config
                  (call_with (Some (js ''complete''))) (complete_request edited_metadata)
                  initial_state)) \<noteq> reviewData initial_state"
    using sample_complete_edited
    by (auto simp: module_exports_complete [OF c] initial_state_def)
  note raw = frame_conditions [where ctx = "call_with (Some (js ''complete''))"
      and req = "complete_request raw_metadata" and b = "complete_body raw_metadata"
      and m = raw_metadata and P = sample_platform and cfg = sample_config
      and s = authorized_state]
  note prepare = frame_conditions [where ctx = "call_with (Some (js ''prepare''))"
      and req = "prepare_request raw_metadata" and P = sample_platform
      and cfg = sample_config and s = initial_state]
  note edited = frame_conditions [where ctx = "call_with (Some (js ''complete''))"
      and req = "complete_request edited_metadata" and P = sample_platform
      and cfg = sample_config and s = initial_state]
  from raw prepare edited c p b m raw_metadata_fields(1) auth review
  show ?thesis by blast
qed

end
